theory Spec2Isabelle
  imports Complex_Main "HOL-Library.Log_Nat"
begin

section \<open>Python values\<close>

text \<open>
  The ROI calculator and the store take their inputs as a Python dictionary
  (\<^verbatim>\<open>Dict[str, Any]\<close>). The values that occur under the keys the code reads are
  \<^verbatim>\<open>None\<close>, integers, floats and strings, so the value universe is these four.

  A float is a finite real, an infinity (\<open>Infinite True\<close> is \<^verbatim>\<open>float('inf')\<close>) or
  NaN. Arithmetic on finite floats is exact and overflows to an infinity where the
  exact result reaches the overflow threshold of binary64, \<open>2 ^ 1024 - 2 ^ 970\<close>.
  The rounding of a finite result to the nearest double, underflow to zero included,
  and the sign of zero are not modelled. An integer is unbounded.
\<close>

datatype pyfloat = Finite real | Infinite bool | NaN

datatype pyval = PNone | PInt int | PFloat pyfloat | PStr string

datatype pyerr = TypeError | ValueError | ZeroDivisionError | OverflowError | DataError

type_synonym pydict = "string \<rightharpoonup> pyval"

text \<open>Sequencing of computations that may raise: the first exception wins.\<close>

definition bind_err :: "pyerr + 'a \<Rightarrow> ('a \<Rightarrow> pyerr + 'b) \<Rightarrow> pyerr + 'b" where
  "bind_err m f = (case m of Inl e \<Rightarrow> Inl e | Inr x \<Rightarrow> f x)"

subsection \<open>Float arithmetic\<close>

definition overflow_threshold :: real where
  "overflow_threshold = 2 ^ 1024 - 2 ^ 970"

text \<open>The float an exact result becomes.\<close>

definition fl :: "real \<Rightarrow> pyfloat" where
  "fl x = (if overflow_threshold \<le> x then Infinite True
           else if x \<le> - overflow_threshold then Infinite False
           else Finite x)"

fun fneg :: "pyfloat \<Rightarrow> pyfloat" where
  "fneg (Finite x) = Finite (- x)"
| "fneg (Infinite p) = Infinite (\<not> p)"
| "fneg NaN = NaN"

fun fadd :: "pyfloat \<Rightarrow> pyfloat \<Rightarrow> pyfloat" where
  "fadd (Finite x) (Finite y) = fl (x + y)"
| "fadd (Finite x) (Infinite q) = Infinite q"
| "fadd (Infinite p) (Finite y) = Infinite p"
| "fadd (Infinite p) (Infinite q) = (if p = q then Infinite p else NaN)"
| "fadd NaN y = NaN"
| "fadd x NaN = NaN"

definition fsub :: "pyfloat \<Rightarrow> pyfloat \<Rightarrow> pyfloat" where
  "fsub x y = fadd x (fneg y)"

fun fmul :: "pyfloat \<Rightarrow> pyfloat \<Rightarrow> pyfloat" where
  "fmul (Finite x) (Finite y) = fl (x * y)"
| "fmul (Finite x) (Infinite q) = (if x = 0 then NaN else Infinite (q = (0 < x)))"
| "fmul (Infinite p) (Finite y) = (if y = 0 then NaN else Infinite (p = (0 < y)))"
| "fmul (Infinite p) (Infinite q) = Infinite (p = q)"
| "fmul NaN y = NaN"
| "fmul x NaN = NaN"

text \<open>Division by a float that is not zero; the caller raises on zero.\<close>

fun fdiv :: "pyfloat \<Rightarrow> pyfloat \<Rightarrow> pyfloat" where
  "fdiv (Finite x) (Finite y) = fl (x / y)"
| "fdiv (Finite x) (Infinite q) = Finite 0"
| "fdiv (Infinite p) (Finite y) = Infinite (p = (0 < y))"
| "fdiv (Infinite p) (Infinite q) = NaN"
| "fdiv NaN y = NaN"
| "fdiv x NaN = NaN"

text \<open>
  The conversion of an integer to a float, as every mixed operation and
  \<^verbatim>\<open>float(n)\<close> perform it: exact up to \<open>2 ^ 53\<close>, beyond that rounded to 53
  significant bits, half to even, and \<^verbatim>\<open>OverflowError\<close> when the rounded value
  reaches \<open>2 ^ 1024\<close>.
\<close>

definition int_to_float :: "int \<Rightarrow> pyerr + pyfloat" where
  "int_to_float n =
     (let a = \<bar>n\<bar> in
      if a \<le> 2 ^ 53 then Inr (Finite (real_of_int n))
      else
        let s = nat (bitlen a - 53);
            q = a div 2 ^ s;
            r = a mod 2 ^ s;
            h = 2 ^ (s - 1);
            m = (if h < r \<or> (r = h \<and> odd q) then q + 1 else q) * 2 ^ s
        in if 2 ^ 1024 \<le> m then Inl OverflowError
           else Inr (Finite (real_of_int (sgn n * m))))"

subsection \<open>Operators on values\<close>

text \<open>Truth value of an object, as \<^verbatim>\<open>or\<close> tests it: NaN and the infinities are true.\<close>

fun truthy :: "pyval \<Rightarrow> bool" where
  "truthy PNone = False"
| "truthy (PInt n) = (n \<noteq> 0)"
| "truthy (PFloat f) = (f \<noteq> Finite 0)"
| "truthy (PStr s) = (s \<noteq> [])"

text \<open>\<^verbatim>\<open>v or d\<close>.\<close>

definition py_or :: "pyval \<Rightarrow> pyval \<Rightarrow> pyval" where
  "py_or v d = (if truthy v then v else d)"

text \<open>\<^verbatim>\<open>inputs.get(k)\<close> and \<^verbatim>\<open>inputs.get(k, d)\<close>.\<close>

definition dict_get :: "pydict \<Rightarrow> string \<Rightarrow> pyval" where
  "dict_get inputs k = (case inputs k of None \<Rightarrow> PNone | Some v \<Rightarrow> v)"

definition dict_get_default :: "pydict \<Rightarrow> string \<Rightarrow> pyval \<Rightarrow> pyval" where
  "dict_get_default inputs k d = (case inputs k of None \<Rightarrow> d | Some v \<Rightarrow> v)"

text \<open>The number a finite numeric value stands for.\<close>

fun py_num :: "pyval \<Rightarrow> real option" where
  "py_num (PInt n) = Some (real_of_int n)"
| "py_num (PFloat (Finite x)) = Some x"
| "py_num (PFloat (Infinite p)) = None"
| "py_num (PFloat NaN) = None"
| "py_num PNone = None"
| "py_num (PStr s) = None"

text \<open>
  The arithmetic operators. Integer times integer, plus and minus stay integers; with
  a float operand the integer is converted and the result is a float. A string times
  an integer is the repeated string and string plus string is concatenation; every
  other combination raises \<^verbatim>\<open>TypeError\<close>.
\<close>

fun py_mul :: "pyval \<Rightarrow> pyval \<Rightarrow> pyerr + pyval" where
  "py_mul (PInt a) (PInt b) = Inr (PInt (a * b))"
| "py_mul (PInt a) (PFloat y) = bind_err (int_to_float a) (\<lambda>x. Inr (PFloat (fmul x y)))"
| "py_mul (PFloat x) (PInt b) = bind_err (int_to_float b) (\<lambda>y. Inr (PFloat (fmul x y)))"
| "py_mul (PFloat x) (PFloat y) = Inr (PFloat (fmul x y))"
| "py_mul (PStr s) (PInt n) = Inr (PStr (concat (replicate (nat n) s)))"
| "py_mul (PInt n) (PStr s) = Inr (PStr (concat (replicate (nat n) s)))"
| "py_mul _ _ = Inl TypeError"

fun py_add :: "pyval \<Rightarrow> pyval \<Rightarrow> pyerr + pyval" where
  "py_add (PInt a) (PInt b) = Inr (PInt (a + b))"
| "py_add (PInt a) (PFloat y) = bind_err (int_to_float a) (\<lambda>x. Inr (PFloat (fadd x y)))"
| "py_add (PFloat x) (PInt b) = bind_err (int_to_float b) (\<lambda>y. Inr (PFloat (fadd x y)))"
| "py_add (PFloat x) (PFloat y) = Inr (PFloat (fadd x y))"
| "py_add (PStr s) (PStr t) = Inr (PStr (s @ t))"
| "py_add _ _ = Inl TypeError"

fun py_sub :: "pyval \<Rightarrow> pyval \<Rightarrow> pyerr + pyval" where
  "py_sub (PInt a) (PInt b) = Inr (PInt (a - b))"
| "py_sub (PInt a) (PFloat y) = bind_err (int_to_float a) (\<lambda>x. Inr (PFloat (fsub x y)))"
| "py_sub (PFloat x) (PInt b) = bind_err (int_to_float b) (\<lambda>y. Inr (PFloat (fsub x y)))"
| "py_sub (PFloat x) (PFloat y) = Inr (PFloat (fsub x y))"
| "py_sub _ _ = Inl TypeError"

text \<open>
  True division. Of two floats it raises \<^verbatim>\<open>ZeroDivisionError\<close> on a zero divisor
  and otherwise never raises. Of two integers it gives the quotient itself, and
  raises \<^verbatim>\<open>OverflowError\<close> when the quotient is too large for a float.
\<close>

definition float_div :: "pyfloat \<Rightarrow> pyfloat \<Rightarrow> pyerr + pyval" where
  "float_div x y = (if y = Finite 0 then Inl ZeroDivisionError else Inr (PFloat (fdiv x y)))"

fun py_truediv :: "pyval \<Rightarrow> pyval \<Rightarrow> pyerr + pyval" where
  "py_truediv (PInt a) (PInt b) =
     (if b = 0 then Inl ZeroDivisionError
      else if overflow_threshold \<le> \<bar>real_of_int a / real_of_int b\<bar> then Inl OverflowError
      else Inr (PFloat (Finite (real_of_int a / real_of_int b))))"
| "py_truediv (PInt a) (PFloat y) = bind_err (int_to_float a) (\<lambda>x. float_div x y)"
| "py_truediv (PFloat x) (PInt b) = bind_err (int_to_float b) (\<lambda>y. float_div x y)"
| "py_truediv (PFloat x) (PFloat y) = float_div x y"
| "py_truediv _ _ = Inl TypeError"

text \<open>
  \<^verbatim>\<open>v > c\<close> and \<^verbatim>\<open>max(v, c)\<close> for a numeric literal \<open>c\<close>, the only forms the
  code uses. A number is compared with the literal exactly; NaN is greater than
  nothing and less than nothing. Ordering \<^verbatim>\<open>None\<close> or a string against a
  number raises. \<^verbatim>\<open>max(v, c)\<close> keeps its first argument unless the second is
  greater.
\<close>

fun float_gt :: "pyfloat \<Rightarrow> real \<Rightarrow> bool" where
  "float_gt (Finite x) c = (c < x)"
| "float_gt (Infinite p) c = p"
| "float_gt NaN c = False"

fun float_lt :: "pyfloat \<Rightarrow> real \<Rightarrow> bool" where
  "float_lt (Finite x) c = (x < c)"
| "float_lt (Infinite p) c = (\<not> p)"
| "float_lt NaN c = False"

fun py_gt :: "pyval \<Rightarrow> real \<Rightarrow> pyerr + bool" where
  "py_gt (PInt n) c = Inr (c < real_of_int n)"
| "py_gt (PFloat f) c = Inr (float_gt f c)"
| "py_gt PNone c = Inl TypeError"
| "py_gt (PStr s) c = Inl TypeError"

fun py_max :: "pyval \<Rightarrow> real \<Rightarrow> pyerr + pyval" where
  "py_max (PInt n) c = Inr (if real_of_int n < c then PFloat (Finite c) else PInt n)"
| "py_max (PFloat f) c = Inr (if float_lt f c then PFloat (Finite c) else PFloat f)"
| "py_max PNone c = Inl TypeError"
| "py_max (PStr s) c = Inl TypeError"

section \<open>The ROI formula engine\<close>

text \<open>
  The result dictionary of \<^verbatim>\<open>calculate_roi_with_inputs\<close> has a fixed set of
  keys and is a record.
\<close>

record roi_metrics =
  labor_savings_monthly :: pyval
  cost_avoidance_monthly :: pyval
  revenue_monthly :: pyval
  monthly_benefit :: pyval
  annual_benefit :: pyval
  implementation_cost :: pyval
  payback_period_months :: pyval
  annual_roi_percentage :: pyval
  confidence_score :: pyval
  risk_mitigation_score :: pyval
  customer_reach_score :: pyval
  strategic_value :: pyval
  time_to_value_hours :: pyval
  fte_hours_saved :: pyval
  costs_saved_annual :: pyval
  revenue_generated_annual :: pyval

text \<open>\<^verbatim>\<open>self.blended_hourly_rate = 100.0\<close>\<close>

definition blended_hourly_rate :: pyval where
  "blended_hourly_rate = PFloat (Finite 100)"

text \<open>
  \<^verbatim>\<open>payback_months = implementation_cost / max(monthly_benefit, 0.01)
      if monthly_benefit > 0 else float('inf')\<close>
  The condition is evaluated first.
\<close>

definition payback_of :: "pyval \<Rightarrow> pyval \<Rightarrow> pyerr + pyval" where
  "payback_of impl_cost monthly =
     bind_err (py_gt monthly 0) (\<lambda>positive.
       if positive then
         bind_err (py_max monthly (1 / 100)) (\<lambda>denominator.
         py_truediv impl_cost denominator)
       else Inr (PFloat (Infinite True)))"

text \<open>
  \<^verbatim>\<open>annual_roi = ((12 * monthly_benefit) - implementation_cost)
      / max(implementation_cost, 0.01) * 100 if implementation_cost > 0 else 0\<close>
\<close>

definition annual_roi_of :: "pyval \<Rightarrow> pyval \<Rightarrow> pyerr + pyval" where
  "annual_roi_of impl_cost monthly =
     bind_err (py_gt impl_cost 0) (\<lambda>positive.
       if positive then
         bind_err (py_mul (PInt 12) monthly) (\<lambda>yearly.
         bind_err (py_sub yearly impl_cost) (\<lambda>net.
         bind_err (py_max impl_cost (1 / 100)) (\<lambda>denominator.
         bind_err (py_truediv net denominator) (\<lambda>q.
         py_mul q (PInt 100)))))
       else Inr (PInt 0))"

text \<open>
  \<^verbatim>\<open>monthly_benefit = (fte_hours_saved * avg_hourly_rate)
      + (costs_saved_annual / 12) + (revenue_generated_annual / 12)\<close>
\<close>

definition monthly_benefit_of :: "pyval \<Rightarrow> pyval \<Rightarrow> pyval \<Rightarrow> pyval \<Rightarrow> pyerr + pyval" where
  "monthly_benefit_of fte avg_hourly_rate costs revenue =
     bind_err (py_mul fte avg_hourly_rate) (\<lambda>labor.
     bind_err (py_truediv costs (PInt 12)) (\<lambda>cost_monthly.
     bind_err (py_add labor cost_monthly) (\<lambda>partial_sum.
     bind_err (py_truediv revenue (PInt 12)) (\<lambda>rev_monthly.
     py_add partial_sum rev_monthly))))"

text \<open>\<^verbatim>\<open>strategic_value = (risk_score + customer_reach + confidence) / 3\<close>\<close>

definition strategic_value_of :: "pyval \<Rightarrow> pyval \<Rightarrow> pyval \<Rightarrow> pyerr + pyval" where
  "strategic_value_of risk_score customer_reach confidence =
     bind_err (py_add risk_score customer_reach) (\<lambda>s.
     bind_err (py_add s confidence) (\<lambda>total.
     py_truediv total (PInt 3)))"

text \<open>
  \<^verbatim>\<open>calculate_roi_with_inputs\<close>, statement by statement. The function has no
  \<^verbatim>\<open>try\<close>: an exception of any operator leaves the function.
\<close>

definition calculate_roi_with_inputs :: "pydict \<Rightarrow> pyerr + roi_metrics" where
  "calculate_roi_with_inputs inputs =
    (let fte = py_or (dict_get inputs ''labor_impact_hours'') (PInt 0);
         avg_hourly_rate = py_or (dict_get inputs ''labor_cost_hourly'') blended_hourly_rate;
         costs = py_or (dict_get inputs ''cost_avoidance_annual'') (PInt 0);
         revenue = py_or (dict_get inputs ''revenue_impact_annual'') (PInt 0);
         ttv = py_or (dict_get inputs ''time_to_value_hours'') (PInt 0)
     in
     bind_err (monthly_benefit_of fte avg_hourly_rate costs revenue) (\<lambda>monthly.
     bind_err (py_mul ttv avg_hourly_rate) (\<lambda>impl_cost.
     bind_err (payback_of impl_cost monthly) (\<lambda>payback_months.
     bind_err (annual_roi_of impl_cost monthly) (\<lambda>annual_roi.
     let confidence = py_or (dict_get inputs ''confidence_level'') (PInt 0);
         risk_score = py_or (dict_get inputs ''risk_mitigation_score'') (PInt 0);
         customer_reach = py_or (dict_get inputs ''customer_reach_score'') (PInt 0)
     in
     bind_err (strategic_value_of risk_score customer_reach confidence) (\<lambda>strategic.
     bind_err (py_mul fte avg_hourly_rate) (\<lambda>labor.
     bind_err (py_truediv costs (PInt 12)) (\<lambda>cost_monthly.
     bind_err (py_truediv revenue (PInt 12)) (\<lambda>rev_monthly.
     bind_err (py_mul monthly (PInt 12)) (\<lambda>yearly.
     Inr \<lparr> labor_savings_monthly = labor,
           cost_avoidance_monthly = cost_monthly,
           revenue_monthly = rev_monthly,
           monthly_benefit = monthly,
           annual_benefit = yearly,
           implementation_cost = impl_cost,
           payback_period_months = payback_months,
           annual_roi_percentage = annual_roi,
           confidence_score = confidence,
           risk_mitigation_score = risk_score,
           customer_reach_score = customer_reach,
           strategic_value = strategic,
           time_to_value_hours = ttv,
           fte_hours_saved = fte,
           costs_saved_annual = costs,
           revenue_generated_annual = revenue \<rparr>))))))))))"

text \<open>
  The two formulas without the floor on the denominator:
  \<^verbatim>\<open>implementation_cost / monthly_benefit\<close> and
  \<^verbatim>\<open>((12 * monthly_benefit) - implementation_cost) / implementation_cost * 100\<close>,
  and the same two with the denominator 0.01, each as Python evaluates it.
\<close>

definition plain_payback :: "pyval \<Rightarrow> pyval \<Rightarrow> pyerr + pyval" where
  "plain_payback impl_cost monthly = py_truediv impl_cost monthly"

definition roi_over :: "pyval \<Rightarrow> pyval \<Rightarrow> pyval \<Rightarrow> pyerr + pyval" where
  "roi_over denominator impl_cost monthly =
     bind_err (py_mul (PInt 12) monthly) (\<lambda>yearly.
     bind_err (py_sub yearly impl_cost) (\<lambda>net.
     bind_err (py_truediv net denominator) (\<lambda>q.
     py_mul q (PInt 100))))"

definition plain_roi :: "pyval \<Rightarrow> pyval \<Rightarrow> pyerr + pyval" where
  "plain_roi impl_cost monthly = roi_over impl_cost impl_cost monthly"

definition one_cent :: pyval where
  "one_cent = PFloat (Finite (1 / 100))"

text \<open>
  Comparisons of a returned value with a literal: \<open>at_least v c\<close> is
  \<^verbatim>\<open>v >= c\<close>, \<open>positive v\<close> is \<^verbatim>\<open>v > 0\<close>, \<open>below v c\<close> is \<^verbatim>\<open>v < c\<close>,
  \<open>is_zero v\<close> is \<^verbatim>\<open>v == 0\<close>; each is false of a value that is not a number.
\<close>

definition at_least :: "pyval \<Rightarrow> real \<Rightarrow> bool" where
  "at_least v c =
     (case v of PInt n \<Rightarrow> c \<le> real_of_int n
      | PFloat f \<Rightarrow> (case f of Finite x \<Rightarrow> c \<le> x | Infinite p \<Rightarrow> p | NaN \<Rightarrow> False)
      | PNone \<Rightarrow> False | PStr s \<Rightarrow> False)"

definition positive :: "pyval \<Rightarrow> bool" where
  "positive v = (py_gt v 0 = Inr True)"

definition below :: "pyval \<Rightarrow> real \<Rightarrow> bool" where
  "below v c =
     (case v of PInt n \<Rightarrow> real_of_int n < c
      | PFloat f \<Rightarrow> float_lt f c
      | PNone \<Rightarrow> False | PStr s \<Rightarrow> False)"


text \<open>
  What the engine computes with when a field is absent, \<^verbatim>\<open>None\<close> or a number:
  the value \<^verbatim>\<open>inputs.get(k) or d\<close> stands for, which is the default \<open>d\<close> also
  when the field is present and zero.
\<close>

definition field_or :: "pydict \<Rightarrow> string \<Rightarrow> real \<Rightarrow> real" where
  "field_or inputs k d =
     (case py_num (dict_get inputs k) of None \<Rightarrow> d | Some x \<Rightarrow> if x = 0 then d else x)"

definition numeric_or_missing :: "pydict \<Rightarrow> string \<Rightarrow> bool" where
  "numeric_or_missing inputs k =
     (case inputs k of None \<Rightarrow> True | Some PNone \<Rightarrow> True
      | Some (PInt n) \<Rightarrow> True | Some (PFloat r) \<Rightarrow> True | Some (PStr s) \<Rightarrow> False)"

text \<open>The eight keys \<^verbatim>\<open>calculate_roi_with_inputs\<close> reads.\<close>

definition roi_fields :: "string list" where
  "roi_fields = [''labor_impact_hours'', ''labor_cost_hourly'', ''cost_avoidance_annual'',
     ''revenue_impact_annual'', ''time_to_value_hours'', ''confidence_level'',
     ''risk_mitigation_score'', ''customer_reach_score'']"

definition numeric_inputs :: "pydict \<Rightarrow> bool" where
  "numeric_inputs inputs = list_all (numeric_or_missing inputs) roi_fields"

text \<open>
  A number of moderate size is an integer or a finite float of magnitude at most
  \<open>2 ^ 26\<close> (about 67 million): the product of two such integers converts to a
  float exactly, and no operation of the engine on such numbers overflows.
\<close>

definition moderate :: "pyval \<Rightarrow> bool" where
  "moderate v =
     (case v of PInt n \<Rightarrow> \<bar>n\<bar> \<le> 2 ^ 26
      | PFloat f \<Rightarrow> (case f of Finite x \<Rightarrow> \<bar>x\<bar> \<le> 2 ^ 26 | Infinite p \<Rightarrow> False | NaN \<Rightarrow> False)
      | PNone \<Rightarrow> False | PStr s \<Rightarrow> False)"

definition moderate_or_missing :: "pydict \<Rightarrow> string \<Rightarrow> bool" where
  "moderate_or_missing inputs k =
     (case inputs k of None \<Rightarrow> True | Some v \<Rightarrow> v = PNone \<or> moderate v)"

definition moderate_inputs :: "pydict \<Rightarrow> bool" where
  "moderate_inputs inputs = list_all (moderate_or_missing inputs) roi_fields"

text \<open>
  A field is non-negative when it is absent, \<^verbatim>\<open>None\<close> or a finite number that is
  not below zero; a score is on the 1-5 scale when it is a number between 1 and 5.
\<close>

definition nonneg_or_missing :: "pydict \<Rightarrow> string \<Rightarrow> bool" where
  "nonneg_or_missing inputs k =
     (case inputs k of None \<Rightarrow> True
      | Some v \<Rightarrow> v = PNone \<or> (case py_num v of None \<Rightarrow> False | Some x \<Rightarrow> 0 \<le> x))"

definition nonneg_inputs :: "pydict \<Rightarrow> bool" where
  "nonneg_inputs inputs = list_all (nonneg_or_missing inputs) roi_fields"

definition score_on_scale :: "pydict \<Rightarrow> string \<Rightarrow> bool" where
  "score_on_scale inputs k =
     (case inputs k of None \<Rightarrow> False
      | Some v \<Rightarrow> (case py_num v of None \<Rightarrow> False | Some x \<Rightarrow> 1 \<le> x \<and> x \<le> 5))"

definition score_fields :: "string list" where
  "score_fields = [''risk_mitigation_score'', ''customer_reach_score'', ''confidence_level'']"

definition score_absent_or_on_scale :: "pydict \<Rightarrow> string \<Rightarrow> bool" where
  "score_absent_or_on_scale inputs k =
     (case inputs k of None \<Rightarrow> True | Some PNone \<Rightarrow> True | Some v \<Rightarrow> score_on_scale inputs k)"

text \<open>
  The formulas of the engine over the reals, in the words of its comments, on the
  values \<open>field_or\<close> gives; \<open>expected_monthly_benefit\<close> and
  \<open>expected_implementation_cost\<close> both use the labour rate, whose default is 100.
\<close>

definition expected_monthly_benefit :: "pydict \<Rightarrow> real" where
  "expected_monthly_benefit inputs =
     field_or inputs ''labor_impact_hours'' 0 * field_or inputs ''labor_cost_hourly'' 100
     + field_or inputs ''cost_avoidance_annual'' 0 / 12
     + field_or inputs ''revenue_impact_annual'' 0 / 12"

definition expected_implementation_cost :: "pydict \<Rightarrow> real" where
  "expected_implementation_cost inputs =
     field_or inputs ''time_to_value_hours'' 0 * field_or inputs ''labor_cost_hourly'' 100"

definition expected_strategic_value :: "pydict \<Rightarrow> real" where
  "expected_strategic_value inputs =
     (field_or inputs ''risk_mitigation_score'' 0 + field_or inputs ''customer_reach_score'' 0
      + field_or inputs ''confidence_level'' 0) / 3"



text \<open>Projections of a result that may be an exception.\<close>

definition returned :: "pyerr + roi_metrics \<Rightarrow> (roi_metrics \<Rightarrow> pyval) \<Rightarrow> real option" where
  "returned res field = (case res of Inl e \<Rightarrow> None | Inr r \<Rightarrow> py_num (field r))"



text \<open>
  Proof bookkeeping: a value the operators handle without rounding or overflow, an
  integer up to \<open>2 ^ 53\<close> or a finite float up to \<open>2 ^ 100\<close>.
\<close>

definition safe :: "pyval \<Rightarrow> bool" where
  "safe v =
     (case v of PInt n \<Rightarrow> \<bar>n\<bar> \<le> 2 ^ 53
      | PFloat f \<Rightarrow> (case f of Finite x \<Rightarrow> \<bar>x\<bar> \<le> 2 ^ 100 | Infinite p \<Rightarrow> False | NaN \<Rightarrow> False)
      | PNone \<Rightarrow> False | PStr s \<Rightarrow> False)"

definition is_float :: "pyval \<Rightarrow> bool" where
  "is_float v = (case v of PFloat f \<Rightarrow> True | PNone \<Rightarrow> False | PInt n \<Rightarrow> False | PStr s \<Rightarrow> False)"

section \<open>The ROI input store\<close>

text \<open>
  Modelled from the spec: the schema of the table \<^verbatim>\<open>roi_inputs\<close>, which no source
  file creates. It has the twelve fields of the spec's data model, reals for the
  amounts and rates, integers for the three scores, a timestamp, and a uniqueness
  constraint on \<^verbatim>\<open>use_case_title\<close>, the conflict target of the upsert. A real
  column holds no infinity and no NaN: the statement that is given one fails. The
  three columns whose names the result record already uses carry the prefix
  \<open>row_\<close>.
\<close>

record roi_row =
  use_case_title :: string
  business_unit :: string
  labor_impact_hours :: real
  labor_cost_hourly :: real
  cost_avoidance_annual :: real
  revenue_impact_annual :: real
  row_risk_mitigation_score :: int
  row_customer_reach_score :: int
  row_time_to_value_hours :: real
  implementation_cost_hourly :: real
  confidence_level :: int
  updated_at :: nat

text \<open>
  \<^verbatim>\<open>self.connection\<close> is \<^verbatim>\<open>None\<close> or a connection object, which is live or
  closed; a cursor on a closed connection raises. The store is the object together
  with the table it talks to and the database clock \<^verbatim>\<open>CURRENT_TIMESTAMP\<close> reads.
\<close>

datatype pg_connection = Live | Closed

record roi_storage =
  connection :: "pg_connection option"
  roi_inputs :: "roi_row list"
  current_timestamp :: nat

text \<open>
  \<^verbatim>\<open>float(v)\<close> and \<^verbatim>\<open>int(v)\<close>. \<^verbatim>\<open>None\<close> raises \<^verbatim>\<open>TypeError\<close>;
  \<^verbatim>\<open>float\<close> of an integer is the conversion above; \<^verbatim>\<open>int\<close> of a finite float
  truncates towards zero, of an infinity raises \<^verbatim>\<open>OverflowError\<close> and of NaN
  \<^verbatim>\<open>ValueError\<close>. How Python reads a number out of a string is a parameter: a
  string it cannot read raises \<^verbatim>\<open>ValueError\<close>.
\<close>

record py_parsers =
  str_to_float :: "string \<Rightarrow> pyfloat option"
  str_to_int :: "string \<Rightarrow> int option"

definition truncate :: "real \<Rightarrow> int" where
  "truncate r = (if 0 \<le> r then \<lfloor>r\<rfloor> else \<lceil>r\<rceil>)"

fun py_float :: "py_parsers \<Rightarrow> pyval \<Rightarrow> pyerr + pyfloat" where
  "py_float P PNone = Inl TypeError"
| "py_float P (PInt n) = int_to_float n"
| "py_float P (PFloat f) = Inr f"
| "py_float P (PStr s) = (case str_to_float P s of None \<Rightarrow> Inl ValueError | Some f \<Rightarrow> Inr f)"

fun py_int :: "py_parsers \<Rightarrow> pyval \<Rightarrow> pyerr + int" where
  "py_int P PNone = Inl TypeError"
| "py_int P (PInt n) = Inr n"
| "py_int P (PFloat (Finite r)) = Inr (truncate r)"
| "py_int P (PFloat (Infinite p)) = Inl OverflowError"
| "py_int P (PFloat NaN) = Inl ValueError"
| "py_int P (PStr s) = (case str_to_int P s of None \<Rightarrow> Inl ValueError | Some n \<Rightarrow> Inr n)"

text \<open>The value a real column takes from a float parameter of the statement.\<close>

fun column_real :: "pyfloat \<Rightarrow> pyerr + real" where
  "column_real (Finite x) = Inr x"
| "column_real (Infinite p) = Inl DataError"
| "column_real NaN = Inl DataError"

text \<open>\<^verbatim>\<open>business_unit or 'Unknown'\<close>, for a parameter that is \<^verbatim>\<open>None\<close> or a string.\<close>

definition unit_or_unknown :: "string option \<Rightarrow> string" where
  "unit_or_unknown bu = (case bu of None \<Rightarrow> ''Unknown'' | Some b \<Rightarrow> if b = [] then ''Unknown'' else b)"

text \<open>
  The parameter tuple of the \<^verbatim>\<open>INSERT\<close>, evaluated left to right, and the row the
  statement makes of it; \<open>now\<close> is \<^verbatim>\<open>CURRENT_TIMESTAMP\<close>.
\<close>

definition insert_values ::
  "py_parsers \<Rightarrow> string \<Rightarrow> pydict \<Rightarrow> string option \<Rightarrow> nat \<Rightarrow> pyerr + roi_row" where
  "insert_values P title inputs bu now =
     bind_err (py_float P (dict_get_default inputs ''labor_impact_hours'' (PInt 0))) (\<lambda>hours.
     bind_err (py_float P (dict_get_default inputs ''labor_cost_hourly'' (PInt 100))) (\<lambda>rate.
     bind_err (py_float P (dict_get_default inputs ''cost_avoidance_annual'' (PInt 0))) (\<lambda>avoid.
     bind_err (py_float P (dict_get_default inputs ''revenue_impact_annual'' (PInt 0))) (\<lambda>rev.
     bind_err (py_int P (dict_get_default inputs ''risk_mitigation_score'' (PInt 3))) (\<lambda>risk.
     bind_err (py_int P (dict_get_default inputs ''customer_reach_score'' (PInt 3))) (\<lambda>reach.
     bind_err (py_float P (dict_get_default inputs ''time_to_value_hours'' (PInt 0))) (\<lambda>ttv.
     bind_err (py_float P (dict_get_default inputs ''implementation_cost_hourly'' (PInt 100))) (\<lambda>impl.
     bind_err (py_int P (dict_get_default inputs ''confidence_level'' (PInt 3))) (\<lambda>conf.
     bind_err (column_real hours) (\<lambda>hours_col.
     bind_err (column_real rate) (\<lambda>rate_col.
     bind_err (column_real avoid) (\<lambda>avoid_col.
     bind_err (column_real rev) (\<lambda>rev_col.
     bind_err (column_real ttv) (\<lambda>ttv_col.
     bind_err (column_real impl) (\<lambda>impl_col.
     Inr \<lparr> use_case_title = title,
           business_unit = unit_or_unknown bu,
           labor_impact_hours = hours_col,
           labor_cost_hourly = rate_col,
           cost_avoidance_annual = avoid_col,
           revenue_impact_annual = rev_col,
           row_risk_mitigation_score = risk,
           row_customer_reach_score = reach,
           row_time_to_value_hours = ttv_col,
           implementation_cost_hourly = impl_col,
           confidence_level = conf,
           updated_at = now \<rparr>)))))))))))))))"

text \<open>
  \<^verbatim>\<open>INSERT ... ON CONFLICT (use_case_title) DO UPDATE SET ...\<close>: a row whose title
  is already in the table has every other column overwritten by the proposed row,
  \<^verbatim>\<open>updated_at\<close> included; otherwise the proposed row is added.
\<close>

definition upsert :: "roi_row \<Rightarrow> roi_row list \<Rightarrow> roi_row list" where
  "upsert new rows =
     (if list_ex (\<lambda>r. use_case_title r = use_case_title new) rows
      then map (\<lambda>r. if use_case_title r = use_case_title new then new else r) rows
      else rows @ [new])"

text \<open>
  \<^verbatim>\<open>save_roi_inputs\<close>: \<^verbatim>\<open>False\<close> without a connection, \<^verbatim>\<open>False\<close> when the
  cursor, a coercion or the statement raises (the \<^verbatim>\<open>except\<close> clause), \<^verbatim>\<open>True\<close>
  after the statement has run. The result is the returned flag and the store
  afterwards.
\<close>

definition save_roi_inputs ::
  "py_parsers \<Rightarrow> roi_storage \<Rightarrow> string \<Rightarrow> pydict \<Rightarrow> string option \<Rightarrow> bool \<times> roi_storage" where
  "save_roi_inputs P s title inputs bu =
     (case connection s of
        None \<Rightarrow> (False, s)
      | Some Closed \<Rightarrow> (False, s)
      | Some Live \<Rightarrow>
          (case insert_values P title inputs bu (current_timestamp s) of
             Inl e \<Rightarrow> (False, s)
           | Inr new \<Rightarrow> (True, s\<lparr>roi_inputs := upsert new (roi_inputs s)\<rparr>)))"

text \<open>
  \<^verbatim>\<open>load_roi_inputs\<close>: \<^verbatim>\<open>SELECT * ... WHERE use_case_title = %s\<close>,
  \<^verbatim>\<open>fetchone\<close>, and the dictionary of the nine numeric columns.
\<close>

definition row_dict :: "roi_row \<Rightarrow> pydict" where
  "row_dict r = map_of
     [(''labor_impact_hours'', PFloat (Finite (labor_impact_hours r))),
      (''labor_cost_hourly'', PFloat (Finite (labor_cost_hourly r))),
      (''cost_avoidance_annual'', PFloat (Finite (cost_avoidance_annual r))),
      (''revenue_impact_annual'', PFloat (Finite (revenue_impact_annual r))),
      (''risk_mitigation_score'', PInt (row_risk_mitigation_score r)),
      (''customer_reach_score'', PInt (row_customer_reach_score r)),
      (''time_to_value_hours'', PFloat (Finite (row_time_to_value_hours r))),
      (''implementation_cost_hourly'', PFloat (Finite (implementation_cost_hourly r))),
      (''confidence_level'', PInt (confidence_level r))]"

definition load_roi_inputs :: "roi_storage \<Rightarrow> string \<Rightarrow> pydict option" where
  "load_roi_inputs s title =
     (case connection s of
        None \<Rightarrow> None
      | Some Closed \<Rightarrow> None
      | Some Live \<Rightarrow>
          (case find (\<lambda>r. use_case_title r = title) (roi_inputs s) of
             None \<Rightarrow> None
           | Some r \<Rightarrow> Some (row_dict r)))"

text \<open>
  \<^verbatim>\<open>delete_roi_inputs\<close>: \<^verbatim>\<open>DELETE ... WHERE use_case_title = %s\<close> and
  \<^verbatim>\<open>cursor.rowcount > 0\<close>, the number of rows the statement removed.
\<close>

definition delete_roi_inputs :: "roi_storage \<Rightarrow> string \<Rightarrow> bool \<times> roi_storage" where
  "delete_roi_inputs s title =
     (case connection s of
        None \<Rightarrow> (False, s)
      | Some Closed \<Rightarrow> (False, s)
      | Some Live \<Rightarrow>
          (let kept = filter (\<lambda>r. use_case_title r \<noteq> title) (roi_inputs s);
               rowcount = length (roi_inputs s) - length kept
           in (rowcount > 0, s\<lparr>roi_inputs := kept\<rparr>)))"

text \<open>\<^verbatim>\<open>close\<close>: closes the connection when there is one.\<close>

definition close :: "roi_storage \<Rightarrow> roi_storage" where
  "close s = (case connection s of None \<Rightarrow> s | Some c \<Rightarrow> s\<lparr>connection := Some Closed\<rparr>)"

text \<open>
  The store as a state machine: the calls of the class, and the passing of time on
  the database clock. A store starts with the empty table.
\<close>

datatype event =
    Save string pydict "string option"
  | Delete string
  | Close
  | Tick nat

fun step :: "py_parsers \<Rightarrow> roi_storage \<Rightarrow> event \<Rightarrow> roi_storage" where
  "step P s (Save title inputs bu) = snd (save_roi_inputs P s title inputs bu)"
| "step P s (Delete title) = snd (delete_roi_inputs s title)"
| "step P s Close = close s"
| "step P s (Tick d) = s\<lparr>current_timestamp := current_timestamp s + d\<rparr>"

definition new_store :: "pg_connection option \<Rightarrow> nat \<Rightarrow> roi_storage" where
  "new_store c t = \<lparr> connection = c, roi_inputs = [], current_timestamp = t \<rparr>"

inductive reachable :: "py_parsers \<Rightarrow> roi_storage \<Rightarrow> bool" for P :: py_parsers where
  reach_start: "reachable P (new_store c t)"
| reach_step: "reachable P s \<Longrightarrow> reachable P (step P s e)"

text \<open>The rows of a title, and a field of a loaded dictionary.\<close>

definition rows_for :: "roi_storage \<Rightarrow> string \<Rightarrow> roi_row list" where
  "rows_for s title = filter (\<lambda>r. use_case_title r = title) (roi_inputs s)"

definition loaded_field :: "pydict option \<Rightarrow> string \<Rightarrow> pyval option" where
  "loaded_field res k = (case res of None \<Rightarrow> None | Some d \<Rightarrow> d k)"

text \<open>
  The inputs \<^verbatim>\<open>save_roi_inputs\<close> stores as they are, whatever the parsers do: the
  six amounts and rates each absent, an integer up to \<open>2 ^ 53\<close> in magnitude (which
  \<^verbatim>\<open>float\<close> converts exactly) or a finite float, the three scores each absent or
  an integer. \<open>loaded_number\<close> is the number under a key of a loaded dictionary, and
  \<open>default_row\<close> the row of the defaults the \<^verbatim>\<open>INSERT\<close> supplies.
\<close>

definition amount_fields :: "string list" where
  "amount_fields = [''labor_impact_hours'', ''labor_cost_hourly'', ''cost_avoidance_annual'',
     ''revenue_impact_annual'', ''time_to_value_hours'', ''implementation_cost_hourly'']"

definition number_or_absent :: "pydict \<Rightarrow> string \<Rightarrow> bool" where
  "number_or_absent inputs k =
     (case inputs k of None \<Rightarrow> True | Some PNone \<Rightarrow> False
      | Some (PInt n) \<Rightarrow> \<bar>n\<bar> \<le> 2 ^ 53
      | Some (PFloat f) \<Rightarrow> (case f of Finite x \<Rightarrow> True | Infinite p \<Rightarrow> False | NaN \<Rightarrow> False)
      | Some (PStr s) \<Rightarrow> False)"

definition integer_or_absent :: "pydict \<Rightarrow> string \<Rightarrow> bool" where
  "integer_or_absent inputs k =
     (case inputs k of None \<Rightarrow> True | Some PNone \<Rightarrow> False
      | Some (PInt n) \<Rightarrow> True | Some (PFloat r) \<Rightarrow> False | Some (PStr s) \<Rightarrow> False)"

definition storable :: "pydict \<Rightarrow> bool" where
  "storable inputs \<longleftrightarrow>
     list_all (number_or_absent inputs) amount_fields
     \<and> list_all (integer_or_absent inputs) score_fields"

definition loaded_number :: "pydict option \<Rightarrow> string \<Rightarrow> real option" where
  "loaded_number res k = (case loaded_field res k of None \<Rightarrow> None | Some v \<Rightarrow> py_num v)"

definition default_row :: "string \<Rightarrow> nat \<Rightarrow> roi_row" where
  "default_row title now = \<lparr> use_case_title = title, business_unit = ''Unknown'',
     labor_impact_hours = 0, labor_cost_hourly = 100, cost_avoidance_annual = 0,
     revenue_impact_annual = 0, row_risk_mitigation_score = 3, row_customer_reach_score = 3,
     row_time_to_value_hours = 0, implementation_cost_hourly = 100, confidence_level = 3,
     updated_at = now \<rparr>"

section \<open>Portfolio aggregation\<close>

text \<open>
  The loop of \<^verbatim>\<open>display_roi_analysis\<close> over \<^verbatim>\<open>all_roi_data.items()\<close>, a
  dictionary from titles to input dictionaries read in insertion order: a list of
  pairs. \<^verbatim>\<open>v not in [None, 0, '']\<close> compares with \<^verbatim>\<open>==\<close>, so the integer and
  the float zero are both in the list.
\<close>

fun in_none_zero_empty :: "pyval \<Rightarrow> bool" where
  "in_none_zero_empty PNone = True"
| "in_none_zero_empty (PInt n) = (n = 0)"
| "in_none_zero_empty (PFloat f) = (f = Finite 0)"
| "in_none_zero_empty (PStr s) = (s = [])"

definition key_fields :: "string list" where
  "key_fields = [''labor_impact_hours'', ''cost_avoidance_annual'', ''revenue_impact_annual'']"

text \<open>\<^verbatim>\<open>has_data = any(inputs.get(field) not in [None, 0, ''] for field in key_fields)\<close>\<close>

definition has_data :: "pydict \<Rightarrow> bool" where
  "has_data inputs = list_ex (\<lambda>field. \<not> in_none_zero_empty (dict_get inputs field)) key_fields"

text \<open>
  A summary row. The source formats each number into a string for display
  (\<^verbatim>\<open>f"${annual_benefit:,.0f}"\<close>); the row here holds the number that is
  formatted, and the two sentinels \<^verbatim>\<open>"Not Set"\<close> and \<^verbatim>\<open>"N/A"\<close> are
  constructors.
\<close>

datatype cost_display = Dollars pyval | Not_Set

datatype roi_display = Percent pyval | N_A

record summary_row =
  use_case :: string
  monthly_benefit_shown :: pyval
  annual_benefit_shown :: pyval
  implementation_cost_shown :: cost_display
  net_annual_benefit_shown :: pyval
  roi_shown :: roi_display
  strategic_value_shown :: pyval

record portfolio =
  total_annual_benefits :: pyval
  total_implementation_costs :: pyval
  roi_summary_data :: "summary_row list"

text \<open>
  The body of the loop for one case that has data. The result dictionary is never
  empty, so \<^verbatim>\<open>if results:\<close> always holds.
  \<^verbatim>\<open>roi_display = f"{roi_percentage:.1f}%" if impl_cost > 0 and
      roi_percentage != float('inf') else "N/A"\<close>
\<close>

definition add_case :: "string \<Rightarrow> roi_metrics \<Rightarrow> portfolio \<Rightarrow> pyerr + portfolio" where
  "add_case case_title results acc =
     (let annual = annual_benefit results;
          impl_cost = implementation_cost results;
          roi_percentage = annual_roi_percentage results
      in
      bind_err (py_sub annual impl_cost) (\<lambda>net_benefit.
      bind_err (py_add (total_annual_benefits acc) annual) (\<lambda>benefits.
      bind_err (py_add (total_implementation_costs acc) impl_cost) (\<lambda>costs.
      bind_err (py_gt impl_cost 0) (\<lambda>cost_set.
      Inr \<lparr> total_annual_benefits = benefits,
            total_implementation_costs = costs,
            roi_summary_data = roi_summary_data acc @
              [\<lparr> use_case = case_title,
                 monthly_benefit_shown = monthly_benefit results,
                 annual_benefit_shown = annual,
                 implementation_cost_shown = (if cost_set then Dollars impl_cost else Not_Set),
                 net_annual_benefit_shown = net_benefit,
                 roi_shown = (if cost_set \<and> roi_percentage \<noteq> PFloat (Infinite True)
                              then Percent roi_percentage else N_A),
                 strategic_value_shown = strategic_value results \<rparr>] \<rparr>)))))"

fun summarize :: "(string \<times> pydict) list \<Rightarrow> portfolio \<Rightarrow> pyerr + portfolio" where
  "summarize [] acc = Inr acc"
| "summarize ((case_title, inputs) # rest) acc =
     (if has_data inputs then
        bind_err (calculate_roi_with_inputs inputs) (\<lambda>results.
        bind_err (add_case case_title results acc) (\<lambda>acc'.
        summarize rest acc'))
      else summarize rest acc)"

text \<open>The totals and the summary before the loop: zero, zero and the empty list.\<close>

definition empty_portfolio :: portfolio where
  "empty_portfolio =
     \<lparr> total_annual_benefits = PInt 0, total_implementation_costs = PInt 0,
       roi_summary_data = [] \<rparr>"

text \<open>A record with nothing to aggregate: its three key fields are absent, null or zero.\<close>

definition zero_or_null :: "pydict \<Rightarrow> string \<Rightarrow> bool" where
  "zero_or_null inputs k =
     (case inputs k of None \<Rightarrow> True | Some PNone \<Rightarrow> True
      | Some (PInt n) \<Rightarrow> n = 0 | Some (PFloat f) \<Rightarrow> f = Finite 0 | Some (PStr s) \<Rightarrow> False)"

definition no_key_data :: "pydict \<Rightarrow> bool" where
  "no_key_data inputs = list_all (zero_or_null inputs) key_fields"

section \<open>Sample inputs\<close>



definition huge_int :: int where
  "huge_int = 2 ^ 1024"


definition odd_int :: int where
  "odd_int = 2 ^ 53 + 1"

definition odd_hours :: pydict where
  "odd_hours = map_of [(''labor_impact_hours'', PInt odd_int)]"

definition huge_hours :: pydict where
  "huge_hours = map_of [(''labor_impact_hours'', PInt huge_int)]"

definition roi_example :: pydict where
  "roi_example = map_of
     [(''labor_impact_hours'', PInt 10), (''labor_cost_hourly'', PInt 50),
      (''cost_avoidance_annual'', PInt 1200), (''revenue_impact_annual'', PInt 2400),
      (''time_to_value_hours'', PInt 20), (''risk_mitigation_score'', PInt 4),
      (''customer_reach_score'', PInt 5), (''confidence_level'', PInt 3)]"

definition tiny_benefit :: pydict where
  "tiny_benefit = map_of
     [(''labor_cost_hourly'', PInt 1), (''cost_avoidance_annual'', PFloat (Finite (3 / 64))),
      (''time_to_value_hours'', PFloat (Finite (1 / 256)))]"

definition unfilled_inputs :: pydict where
  "unfilled_inputs = map_of
     [(''labor_impact_hours'', PNone), (''labor_cost_hourly'', PFloat (Finite 100)),
      (''cost_avoidance_annual'', PNone), (''revenue_impact_annual'', PNone),
      (''risk_mitigation_score'', PNone), (''customer_reach_score'', PNone),
      (''time_to_value_hours'', PNone), (''implementation_cost_hourly'', PFloat (Finite 100)),
      (''confidence_level'', PNone)]"

definition free_project :: pydict where
  "free_project = map_of [(''labor_impact_hours'', PInt 10), (''time_to_value_hours'', PInt 0)]"

definition scored_inputs :: pydict where
  "scored_inputs = map_of
     [(''risk_mitigation_score'', PInt 1), (''customer_reach_score'', PInt 5),
      (''confidence_level'', PInt 2)]"




definition no_parsers :: py_parsers where
  "no_parsers = \<lparr> str_to_float = (\<lambda>s. None), str_to_int = (\<lambda>s. None) \<rparr>"

definition saved_once :: roi_storage where
  "saved_once = step no_parsers (new_store (Some Live) 7) (Save ''A'' roi_example (Some ''Sales''))"

definition project_row :: roi_row where
  "project_row = \<lparr> use_case_title = ''A'', business_unit = ''Unknown'',
     labor_impact_hours = 10, labor_cost_hourly = 100, cost_avoidance_annual = 0,
     revenue_impact_annual = 0, row_risk_mitigation_score = 3, row_customer_reach_score = 3,
     row_time_to_value_hours = 0, implementation_cost_hourly = 100, confidence_level = 3,
     updated_at = 7 \<rparr>"

definition idle_case :: pydict where
  "idle_case = map_of
     [(''labor_impact_hours'', PInt 0), (''cost_avoidance_annual'', PNone),
      (''time_to_value_hours'', PInt 40), (''labor_cost_hourly'', PInt 50)]"

section \<open>Floats and conversions without overflow\<close>

lemma bind_err_Inr:
  "bind_err m f = Inr y \<longleftrightarrow> (\<exists>x. m = Inr x \<and> f x = Inr y)"
  by (cases m) (simp_all add: bind_err_def)

lemma bind_err_return: "bind_err m Inr = m"
  by (cases m) (simp_all add: bind_err_def)

lemma threshold_large: "(2 :: real) ^ 300 < overflow_threshold"
  by (simp add: overflow_threshold_def)

lemma fl_finite:
  assumes "\<bar>x\<bar> \<le> 2 ^ 300"
  shows "fl x = Finite x"
proof -
  have "x < overflow_threshold" "- overflow_threshold < x"
    using assms threshold_large by linarith+
  then show ?thesis by (simp add: fl_def)
qed

lemma int_to_float_exact:
  assumes "\<bar>n\<bar> \<le> 2 ^ 53"
  shows "int_to_float n = Inr (Finite (real_of_int n))"
  using assms by (simp add: int_to_float_def)


lemma abs_mult_bound:
  fixes x y :: real
  assumes "\<bar>x\<bar> \<le> A" and "\<bar>y\<bar> \<le> B"
  shows "\<bar>x * y\<bar> \<le> A * B"
proof -
  have "\<bar>x\<bar> * \<bar>y\<bar> \<le> A * B"
    using assms by (intro mult_mono) auto
  then show ?thesis by (simp add: abs_mult)
qed

lemma abs_div_bound:
  fixes x y :: real
  assumes "1 / 100 \<le> \<bar>y\<bar>"
  shows "\<bar>x / y\<bar> \<le> 100 * \<bar>x\<bar>"
proof -
  have pos: "0 < \<bar>y\<bar>" using assms by linarith
  have "\<bar>x\<bar> \<le> 100 * \<bar>x\<bar> * \<bar>y\<bar>"
  proof -
    have "\<bar>x\<bar> * 1 \<le> \<bar>x\<bar> * (100 * \<bar>y\<bar>)"
      using assms by (intro mult_left_mono) auto
    then show ?thesis by (simp add: mult.assoc)
  qed
  then have "\<bar>x\<bar> / \<bar>y\<bar> \<le> 100 * \<bar>x\<bar>"
    using pos by (simp add: pos_divide_le_eq)
  then show ?thesis by simp
qed

lemma safe_cases:
  assumes "safe v"
  obtains n where "v = PInt n" "\<bar>n\<bar> \<le> 2 ^ 53"
  | x where "v = PFloat (Finite x)" "\<bar>x\<bar> \<le> 2 ^ 100"
  using assms by (auto simp: safe_def split: pyval.splits pyfloat.splits)

lemma safe_bound:
  assumes "py_num v = Some x" and "\<bar>x\<bar> \<le> 2 ^ 53"
  shows "safe v"
proof (cases v)
  case (PInt n)
  then have "\<bar>real_of_int n\<bar> \<le> real_of_int (2 ^ 53)" using assms by simp
  then have "\<bar>n\<bar> \<le> 2 ^ 53" by linarith
  then show ?thesis using PInt by (simp add: safe_def)
next
  case (PFloat f)
  then show ?thesis using assms by (cases f) (auto simp: safe_def)
qed (use assms in auto)

lemma safe_float:
  assumes "is_float v" and "py_num v = Some x" and "\<bar>x\<bar> \<le> 2 ^ 100"
  shows "safe v"
  using assms by (cases v) (auto simp: safe_def is_float_def split: pyfloat.splits)

lemma abs_of_int_bound:
  assumes "\<bar>n\<bar> \<le> 2 ^ 53"
  shows "\<bar>real_of_int n\<bar> \<le> 2 ^ 53"
proof -
  have "real_of_int \<bar>n\<bar> \<le> real_of_int (2 ^ 53)"
    using assms by (simp only: of_int_le_iff)
  then show ?thesis by simp
qed

lemma safe_abs:
  assumes "safe v" and "py_num v = Some x"
  shows "\<bar>x\<bar> \<le> 2 ^ 100"
proof (rule safe_cases[OF assms(1)])
  fix n assume v: "v = PInt n" and n: "\<bar>n\<bar> \<le> 2 ^ 53"
  have "x = real_of_int n" using v assms(2) by simp
  moreover have "\<bar>real_of_int n\<bar> \<le> 2 ^ 53" by (rule abs_of_int_bound[OF n])
  ultimately show ?thesis by simp
next
  fix y assume "v = PFloat (Finite y)" "\<bar>y\<bar> \<le> 2 ^ 100"
  then show ?thesis using assms(2) by simp
qed

lemma py_mul_safe:
  assumes "safe a" and "safe b" and "py_num a = Some x" and "py_num b = Some y"
  shows "\<exists>c. py_mul a b = Inr c \<and> py_num c = Some (x * y)
           \<and> (is_float a \<or> is_float b \<longrightarrow> is_float c)"
proof -
  have "\<bar>x * y\<bar> \<le> 2 ^ 100 * 2 ^ 100"
    by (rule abs_mult_bound[OF safe_abs[OF assms(1,3)] safe_abs[OF assms(2,4)]])
  then have fin: "fl (x * y) = Finite (x * y)"
    by (intro fl_finite) simp
  show ?thesis
  proof (rule safe_cases[OF assms(1)]; rule safe_cases[OF assms(2)])
    fix n m assume "a = PInt n" "\<bar>n\<bar> \<le> 2 ^ 53" "b = PInt m" "\<bar>m\<bar> \<le> 2 ^ 53"
    then show ?thesis using assms(3,4) by (auto simp: is_float_def)
  next
    fix n v assume "a = PInt n" "\<bar>n\<bar> \<le> 2 ^ 53" "b = PFloat (Finite v)" "\<bar>v\<bar> \<le> 2 ^ 100"
    then show ?thesis using assms(3,4) fin
      by (auto simp: is_float_def int_to_float_exact bind_err_def)
  next
    fix u m assume "a = PFloat (Finite u)" "\<bar>u\<bar> \<le> 2 ^ 100" "b = PInt m" "\<bar>m\<bar> \<le> 2 ^ 53"
    then show ?thesis using assms(3,4) fin
      by (auto simp: is_float_def int_to_float_exact bind_err_def)
  next
    fix u v assume "a = PFloat (Finite u)" "\<bar>u\<bar> \<le> 2 ^ 100" "b = PFloat (Finite v)" "\<bar>v\<bar> \<le> 2 ^ 100"
    then show ?thesis using assms(3,4) fin
      by (auto simp: is_float_def)
  qed
qed

lemma py_add_safe:
  assumes "safe a" and "safe b" and "py_num a = Some x" and "py_num b = Some y"
  shows "\<exists>c. py_add a b = Inr c \<and> py_num c = Some (x + y)
           \<and> (is_float a \<or> is_float b \<longrightarrow> is_float c)"
proof -
  have "\<bar>x + y\<bar> \<le> 2 ^ 100 + 2 ^ 100"
    using safe_abs[OF assms(1,3)] safe_abs[OF assms(2,4)] by linarith
  then have fin: "fl (x + y) = Finite (x + y)"
    by (intro fl_finite) simp
  show ?thesis
  proof (rule safe_cases[OF assms(1)]; rule safe_cases[OF assms(2)])
    fix n m assume "a = PInt n" "\<bar>n\<bar> \<le> 2 ^ 53" "b = PInt m" "\<bar>m\<bar> \<le> 2 ^ 53"
    then show ?thesis using assms(3,4) by (auto simp: is_float_def)
  next
    fix n v assume "a = PInt n" "\<bar>n\<bar> \<le> 2 ^ 53" "b = PFloat (Finite v)" "\<bar>v\<bar> \<le> 2 ^ 100"
    then show ?thesis using assms(3,4) fin
      by (auto simp: is_float_def int_to_float_exact bind_err_def)
  next
    fix u m assume "a = PFloat (Finite u)" "\<bar>u\<bar> \<le> 2 ^ 100" "b = PInt m" "\<bar>m\<bar> \<le> 2 ^ 53"
    then show ?thesis using assms(3,4) fin
      by (auto simp: is_float_def int_to_float_exact bind_err_def)
  next
    fix u v assume "a = PFloat (Finite u)" "\<bar>u\<bar> \<le> 2 ^ 100" "b = PFloat (Finite v)" "\<bar>v\<bar> \<le> 2 ^ 100"
    then show ?thesis using assms(3,4) fin
      by (auto simp: is_float_def)
  qed
qed

lemma py_sub_safe:
  assumes "safe a" and "safe b" and "py_num a = Some x" and "py_num b = Some y"
  shows "\<exists>c. py_sub a b = Inr c \<and> py_num c = Some (x - y)
           \<and> (is_float a \<or> is_float b \<longrightarrow> is_float c)"
proof -
  have "\<bar>x - y\<bar> \<le> 2 ^ 100 + 2 ^ 100"
    using safe_abs[OF assms(1,3)] safe_abs[OF assms(2,4)] by linarith
  then have fin: "fl (x - y) = Finite (x - y)"
    by (intro fl_finite) simp
  show ?thesis
  proof (rule safe_cases[OF assms(1)]; rule safe_cases[OF assms(2)])
    fix n m assume "a = PInt n" "\<bar>n\<bar> \<le> 2 ^ 53" "b = PInt m" "\<bar>m\<bar> \<le> 2 ^ 53"
    then show ?thesis using assms(3,4) by (auto simp: is_float_def)
  next
    fix n v assume "a = PInt n" "\<bar>n\<bar> \<le> 2 ^ 53" "b = PFloat (Finite v)" "\<bar>v\<bar> \<le> 2 ^ 100"
    then show ?thesis using assms(3,4) fin
      by (auto simp: is_float_def int_to_float_exact bind_err_def fsub_def)
  next
    fix u m assume "a = PFloat (Finite u)" "\<bar>u\<bar> \<le> 2 ^ 100" "b = PInt m" "\<bar>m\<bar> \<le> 2 ^ 53"
    then show ?thesis using assms(3,4) fin
      by (auto simp: is_float_def int_to_float_exact bind_err_def fsub_def)
  next
    fix u v assume "a = PFloat (Finite u)" "\<bar>u\<bar> \<le> 2 ^ 100" "b = PFloat (Finite v)" "\<bar>v\<bar> \<le> 2 ^ 100"
    then show ?thesis using assms(3,4) fin
      by (auto simp: is_float_def fsub_def)
  qed
qed

lemma py_truediv_safe:
  assumes "safe a" and "safe b" and "py_num a = Some x" and "py_num b = Some y"
    and "1 / 100 \<le> \<bar>y\<bar>"
  shows "py_truediv a b = Inr (PFloat (Finite (x / y)))"
proof -
  have "\<bar>x / y\<bar> \<le> 100 * \<bar>x\<bar>" by (rule abs_div_bound[OF assms(5)])
  also have "\<dots> \<le> 100 * 2 ^ 100" using safe_abs[OF assms(1,3)] by simp
  finally have q: "\<bar>x / y\<bar> \<le> 2 ^ 300" by simp
  have fin: "fl (x / y) = Finite (x / y)" by (rule fl_finite[OF q])
  have small: "\<not> overflow_threshold \<le> \<bar>x / y\<bar>" using q threshold_large by linarith
  have nz: "y \<noteq> 0" using assms(5) by auto
  show ?thesis
  proof (rule safe_cases[OF assms(1)]; rule safe_cases[OF assms(2)])
    fix n m assume "a = PInt n" "\<bar>n\<bar> \<le> 2 ^ 53" "b = PInt m" "\<bar>m\<bar> \<le> 2 ^ 53"
    then show ?thesis using assms(3,4) small nz by auto
  next
    fix n v assume "a = PInt n" "\<bar>n\<bar> \<le> 2 ^ 53" "b = PFloat (Finite v)" "\<bar>v\<bar> \<le> 2 ^ 100"
    then show ?thesis using assms(3,4) fin nz
      by (auto simp: int_to_float_exact bind_err_def float_div_def)
  next
    fix u m assume "a = PFloat (Finite u)" "\<bar>u\<bar> \<le> 2 ^ 100" "b = PInt m" "\<bar>m\<bar> \<le> 2 ^ 53"
    then show ?thesis using assms(3,4) fin nz
      by (auto simp: int_to_float_exact bind_err_def float_div_def)
  next
    fix u v assume "a = PFloat (Finite u)" "\<bar>u\<bar> \<le> 2 ^ 100" "b = PFloat (Finite v)" "\<bar>v\<bar> \<le> 2 ^ 100"
    then show ?thesis using assms(3,4) fin nz
      by (auto simp: float_div_def)
  qed
qed

lemma py_gt_num:
  assumes "py_num v = Some x"
  shows "py_gt v c = Inr (c < x)"
  using assms by (cases v rule: py_num.cases) auto

lemma py_max_num:
  assumes "py_num v = Some x"
  shows "\<exists>d. py_max v c = Inr d \<and> py_num d = Some (max x c)
           \<and> (d = v \<or> d = PFloat (Finite c))"
  using assms by (cases v rule: py_num.cases) (auto simp: max_def)

lemma py_max_safe:
  assumes "safe v" and "py_max v c = Inr d" and "\<bar>c\<bar> \<le> 2 ^ 100"
  shows "safe d"
proof (rule safe_cases[OF assms(1)])
  fix n assume "v = PInt n" "\<bar>n\<bar> \<le> 2 ^ 53"
  then show ?thesis using assms by (auto simp: safe_def split: if_splits)
next
  fix x assume "v = PFloat (Finite x)" "\<bar>x\<bar> \<le> 2 ^ 100"
  then show ?thesis using assms by (auto simp: safe_def split: if_splits)
qed

section \<open>The engine on numbers of moderate size\<close>

lemma abs_of_int_moderate:
  assumes "\<bar>n\<bar> \<le> 2 ^ 26"
  shows "\<bar>real_of_int n\<bar> \<le> 2 ^ 26"
proof -
  have "real_of_int \<bar>n\<bar> \<le> real_of_int (2 ^ 26)"
    using assms by (simp only: of_int_le_iff)
  then show ?thesis by simp
qed

lemma moderate_num:
  assumes "moderate v"
  shows "\<exists>x. py_num v = Some x \<and> \<bar>x\<bar> \<le> 2 ^ 26"
  using assms abs_of_int_moderate
  by (cases v rule: py_num.cases) (auto simp: moderate_def)

lemma py_or_moderate:
  assumes "moderate_or_missing inputs k" and "py_num d = Some dv" and "\<bar>dv\<bar> \<le> 2 ^ 26"
  shows "py_num (py_or (dict_get inputs k) d) = Some (field_or inputs k dv)
         \<and> \<bar>field_or inputs k dv\<bar> \<le> 2 ^ 26"
proof (cases "inputs k")
  case None
  then show ?thesis using assms by (simp add: py_or_def dict_get_def field_or_def)
next
  case (Some v)
  show ?thesis
  proof (cases "v = PNone")
    case True
    then show ?thesis using Some assms by (simp add: py_or_def dict_get_def field_or_def)
  next
    case False
    then have "moderate v" using assms(1) Some by (simp add: moderate_or_missing_def)
    then obtain x where x: "py_num v = Some x" "\<bar>x\<bar> \<le> 2 ^ 26"
      using moderate_num by blast
    have t: "truthy v \<longleftrightarrow> x \<noteq> 0"
      using x(1) by (cases v rule: py_num.cases) auto
    show ?thesis using Some x t assms(2,3)
      by (simp add: py_or_def dict_get_def field_or_def)
  qed
qed

lemma moderate_field:
  assumes "moderate_inputs inputs" and "k \<in> set roi_fields"
  shows "moderate_or_missing inputs k"
  using assms by (simp add: moderate_inputs_def list_all_iff)

lemma safe_moderate:
  assumes "py_num v = Some x" and "\<bar>x\<bar> \<le> 2 ^ 26"
  shows "safe v"
proof -
  have "\<bar>x\<bar> \<le> 2 ^ 53" using assms(2) by simp
  then show ?thesis by (rule safe_bound[OF assms(1)])
qed

lemma safe_literal [simp]: "safe (PInt 12)" "safe (PInt 3)" "safe (PInt 100)"
  by (simp_all add: safe_def)

lemma safe_finite:
  assumes "\<bar>x\<bar> \<le> 2 ^ 100"
  shows "safe (PFloat (Finite x))"
  using assms by (simp add: safe_def)

lemma over_twelve:
  assumes "py_num v = Some x" and "\<bar>x\<bar> \<le> 2 ^ 26"
  shows "py_truediv v (PInt 12) = Inr (PFloat (Finite (x / 12)))"
  using py_truediv_safe[OF safe_moderate[OF assms] safe_literal(1) assms(1), of 12] by simp

lemma monthly_benefit_of_moderate:
  assumes "py_num fte = Some h" "\<bar>h\<bar> \<le> 2 ^ 26"
    and "py_num rate = Some w" "\<bar>w\<bar> \<le> 2 ^ 26"
    and "py_num costs = Some c" "\<bar>c\<bar> \<le> 2 ^ 26"
    and "py_num revenue = Some v" "\<bar>v\<bar> \<le> 2 ^ 26"
  shows "\<exists>m. monthly_benefit_of fte rate costs revenue = Inr m
           \<and> py_num m = Some (h * w + c / 12 + v / 12) \<and> is_float m
           \<and> \<bar>h * w + c / 12 + v / 12\<bar> \<le> 2 ^ 53"
proof -
  have hw: "\<bar>h * w\<bar> \<le> 2 ^ 52"
    using abs_mult_bound[OF assms(2,4)] by simp
  obtain labor where l: "py_mul fte rate = Inr labor" "py_num labor = Some (h * w)"
    using py_mul_safe[OF safe_moderate[OF assms(1,2)] safe_moderate[OF assms(3,4)] assms(1,3)]
    by blast
  have sl: "safe labor" using hw by (intro safe_bound[OF l(2)]) simp
  have c: "py_truediv costs (PInt 12) = Inr (PFloat (Finite (c / 12)))"
    by (rule over_twelve[OF assms(5,6)])
  have r: "py_truediv revenue (PInt 12) = Inr (PFloat (Finite (v / 12)))"
    by (rule over_twelve[OF assms(7,8)])
  have sc: "safe (PFloat (Finite (c / 12)))" using assms(6) by (intro safe_finite) simp
  have sr: "safe (PFloat (Finite (v / 12)))" using assms(8) by (intro safe_finite) simp
  have pc: "py_num (PFloat (Finite (c / 12))) = Some (c / 12)" by simp
  have pr: "py_num (PFloat (Finite (v / 12))) = Some (v / 12)" by simp
  obtain s where s: "py_add labor (PFloat (Finite (c / 12))) = Inr s"
      "py_num s = Some (h * w + c / 12)" "is_float s"
    using py_add_safe[OF sl sc l(2) pc] by (auto simp: is_float_def)
  have bs: "\<bar>h * w + c / 12\<bar> \<le> 2 ^ 53" using hw assms(6) by simp
  have ss: "safe s" by (rule safe_bound[OF s(2) bs])
  obtain m where m: "py_add s (PFloat (Finite (v / 12))) = Inr m"
      "py_num m = Some (h * w + c / 12 + v / 12)" "is_float m"
    using py_add_safe[OF ss sr s(2) pr] by (auto simp: is_float_def)
  have bm: "\<bar>h * w + c / 12 + v / 12\<bar> \<le> 2 ^ 53" using hw assms(6,8) by simp
  show ?thesis
    using m bm by (simp add: monthly_benefit_of_def bind_err_def l c s r)
qed

lemma payback_of_safe:
  assumes "safe cost" "py_num cost = Some ic" "safe monthly" "py_num monthly = Some mb"
  shows "payback_of cost monthly =
           Inr (if 0 < mb then PFloat (Finite (ic / max mb (1 / 100))) else PFloat (Infinite True))"
proof (cases "0 < mb")
  case True
  obtain d where d: "py_max monthly (1 / 100) = Inr d" "py_num d = Some (max mb (1 / 100))"
    using py_max_num[OF assms(4)] by blast
  have sd: "safe d" by (rule py_max_safe[OF assms(3) d(1)]) simp
  have "1 / 100 \<le> \<bar>max mb (1 / 100)\<bar>" by (simp add: max_def)
  then have "py_truediv cost d = Inr (PFloat (Finite (ic / max mb (1 / 100))))"
    by (rule py_truediv_safe[OF assms(1) sd assms(2) d(2)])
  then show ?thesis using True
    by (simp add: payback_of_def bind_err_def py_gt_num[OF assms(4)] d)
next
  case False
  then show ?thesis
    by (simp add: payback_of_def bind_err_def py_gt_num[OF assms(4)])
qed

lemma annual_roi_of_safe:
  assumes "py_num cost = Some ic" "\<bar>ic\<bar> \<le> 2 ^ 53"
    and "py_num monthly = Some mb" "\<bar>mb\<bar> \<le> 2 ^ 53" "is_float monthly"
  shows "\<exists>a. annual_roi_of cost monthly = Inr a \<and>
           py_num a = Some (if 0 < ic then (12 * mb - ic) / max ic (1 / 100) * 100 else 0)"
proof (cases "0 < ic")
  case True
  have sc: "safe cost" by (rule safe_bound[OF assms(1,2)])
  have sm: "safe monthly" by (rule safe_bound[OF assms(3,4)])
  have p12: "py_num (PInt 12) = Some 12" by simp
  obtain y where y: "py_mul (PInt 12) monthly = Inr y" "py_num y = Some (12 * mb)" "is_float y"
    using py_mul_safe[OF safe_literal(1) sm p12 assms(3)] assms(5) by auto
  have sy: "safe y" using assms(4) by (intro safe_float[OF y(3) y(2)]) simp
  obtain n where n: "py_sub y cost = Inr n" "py_num n = Some (12 * mb - ic)" "is_float n"
    using py_sub_safe[OF sy sc y(2) assms(1)] y(3) by auto
  have bn: "\<bar>12 * mb - ic\<bar> \<le> 13 * 2 ^ 53" using assms(2,4) by simp
  have sn: "safe n" using bn by (intro safe_float[OF n(3) n(2)]) simp
  obtain d where d: "py_max cost (1 / 100) = Inr d" "py_num d = Some (max ic (1 / 100))"
    using py_max_num[OF assms(1)] by blast
  have sd: "safe d" by (rule py_max_safe[OF sc d(1)]) simp
  have dd: "1 / 100 \<le> \<bar>max ic (1 / 100)\<bar>" by (simp add: max_def)
  have q: "py_truediv n d = Inr (PFloat (Finite ((12 * mb - ic) / max ic (1 / 100))))"
    by (rule py_truediv_safe[OF sn sd n(2) d(2) dd])
  have "\<bar>(12 * mb - ic) / max ic (1 / 100)\<bar> \<le> 100 * \<bar>12 * mb - ic\<bar>"
    by (rule abs_div_bound[OF dd])
  then have bq: "\<bar>(12 * mb - ic) / max ic (1 / 100)\<bar> \<le> 2 ^ 100" using bn by simp
  have sq: "safe (PFloat (Finite ((12 * mb - ic) / max ic (1 / 100))))"
    by (rule safe_finite[OF bq])
  have pq: "py_num (PFloat (Finite ((12 * mb - ic) / max ic (1 / 100))))
              = Some ((12 * mb - ic) / max ic (1 / 100))" by simp
  have p100: "py_num (PInt 100) = Some 100" by simp
  obtain a where a: "py_mul (PFloat (Finite ((12 * mb - ic) / max ic (1 / 100)))) (PInt 100) = Inr a"
      "py_num a = Some ((12 * mb - ic) / max ic (1 / 100) * 100)"
    using py_mul_safe[OF sq safe_literal(3) pq p100] by blast
  show ?thesis using True a
    by (simp add: annual_roi_of_def bind_err_def py_gt_num[OF assms(1)] y n d q)
next
  case False
  then show ?thesis
    by (simp add: annual_roi_of_def bind_err_def py_gt_num[OF assms(1)])
qed

lemma strategic_value_of_moderate:
  assumes "py_num risk = Some a" "\<bar>a\<bar> \<le> 2 ^ 26"
    and "py_num reach = Some b" "\<bar>b\<bar> \<le> 2 ^ 26"
    and "py_num conf = Some c" "\<bar>c\<bar> \<le> 2 ^ 26"
  shows "strategic_value_of risk reach conf = Inr (PFloat (Finite ((a + b + c) / 3)))"
proof -
  obtain s where s: "py_add risk reach = Inr s" "py_num s = Some (a + b)"
    using py_add_safe[OF safe_moderate[OF assms(1,2)] safe_moderate[OF assms(3,4)] assms(1,3)]
    by blast
  have ss: "safe s" using assms(2,4) by (intro safe_bound[OF s(2)]) simp
  obtain t where t: "py_add s conf = Inr t" "py_num t = Some (a + b + c)"
    using py_add_safe[OF ss safe_moderate[OF assms(5,6)] s(2) assms(5)] by blast
  have st: "safe t" using assms(2,4,6) by (intro safe_bound[OF t(2)]) simp
  have "py_truediv t (PInt 3) = Inr (PFloat (Finite ((a + b + c) / 3)))"
    using py_truediv_safe[OF st safe_literal(2) t(2), of 3] by simp
  then show ?thesis by (simp add: strategic_value_of_def bind_err_def s t)
qed

lemma calc_moderate:
  assumes "moderate_inputs inputs"
  shows "\<exists>r. calculate_roi_with_inputs inputs = Inr r
    \<and> py_num (monthly_benefit r) = Some (expected_monthly_benefit inputs)
    \<and> py_num (annual_benefit r) = Some (expected_monthly_benefit inputs * 12)
    \<and> py_num (implementation_cost r) = Some (expected_implementation_cost inputs)
    \<and> payback_period_months r =
          (if expected_monthly_benefit inputs > 0
           then PFloat (Finite (expected_implementation_cost inputs
                                  / max (expected_monthly_benefit inputs) (1 / 100)))
           else PFloat (Infinite True))
    \<and> py_num (annual_roi_percentage r) =
          Some (if expected_implementation_cost inputs > 0
                then (12 * expected_monthly_benefit inputs - expected_implementation_cost inputs)
                       / max (expected_implementation_cost inputs) (1 / 100) * 100
                else 0)
    \<and> py_num (strategic_value r) = Some (expected_strategic_value inputs)
    \<and> py_num (labor_savings_monthly r) =
          Some (field_or inputs ''labor_impact_hours'' 0 * field_or inputs ''labor_cost_hourly'' 100)
    \<and> py_num (cost_avoidance_monthly r) = Some (field_or inputs ''cost_avoidance_annual'' 0 / 12)
    \<and> py_num (revenue_monthly r) = Some (field_or inputs ''revenue_impact_annual'' 0 / 12)
    \<and> py_num (confidence_score r) = Some (field_or inputs ''confidence_level'' 0)
    \<and> py_num (risk_mitigation_score r) = Some (field_or inputs ''risk_mitigation_score'' 0)
    \<and> py_num (customer_reach_score r) = Some (field_or inputs ''customer_reach_score'' 0)"
proof -
  let ?fte = "py_or (dict_get inputs ''labor_impact_hours'') (PInt 0)"
  let ?rate = "py_or (dict_get inputs ''labor_cost_hourly'') blended_hourly_rate"
  let ?costs = "py_or (dict_get inputs ''cost_avoidance_annual'') (PInt 0)"
  let ?rev = "py_or (dict_get inputs ''revenue_impact_annual'') (PInt 0)"
  let ?ttv = "py_or (dict_get inputs ''time_to_value_hours'') (PInt 0)"
  let ?conf = "py_or (dict_get inputs ''confidence_level'') (PInt 0)"
  let ?risk = "py_or (dict_get inputs ''risk_mitigation_score'') (PInt 0)"
  let ?reach = "py_or (dict_get inputs ''customer_reach_score'') (PInt 0)"
  let ?h = "field_or inputs ''labor_impact_hours'' 0"
  let ?w = "field_or inputs ''labor_cost_hourly'' 100"
  let ?c = "field_or inputs ''cost_avoidance_annual'' 0"
  let ?v = "field_or inputs ''revenue_impact_annual'' 0"
  let ?t = "field_or inputs ''time_to_value_hours'' 0"
  have ok: "moderate_or_missing inputs ''labor_impact_hours''"
    "moderate_or_missing inputs ''labor_cost_hourly''"
    "moderate_or_missing inputs ''cost_avoidance_annual''"
    "moderate_or_missing inputs ''revenue_impact_annual''"
    "moderate_or_missing inputs ''time_to_value_hours''"
    "moderate_or_missing inputs ''confidence_level''"
    "moderate_or_missing inputs ''risk_mitigation_score''"
    "moderate_or_missing inputs ''customer_reach_score''"
    using assms by (simp_all add: moderate_inputs_def roi_fields_def)
  have z: "py_num (PInt 0) = Some 0" "\<bar>0 :: real\<bar> \<le> 2 ^ 26" by simp_all
  have b: "py_num blended_hourly_rate = Some 100" "\<bar>100 :: real\<bar> \<le> 2 ^ 26"
    by (simp_all add: blended_hourly_rate_def)
  note fte = py_or_moderate[OF ok(1) z, THEN conjunct1] py_or_moderate[OF ok(1) z, THEN conjunct2]
  note rate = py_or_moderate[OF ok(2) b, THEN conjunct1] py_or_moderate[OF ok(2) b, THEN conjunct2]
  note costs = py_or_moderate[OF ok(3) z, THEN conjunct1] py_or_moderate[OF ok(3) z, THEN conjunct2]
  note rev = py_or_moderate[OF ok(4) z, THEN conjunct1] py_or_moderate[OF ok(4) z, THEN conjunct2]
  note ttv = py_or_moderate[OF ok(5) z, THEN conjunct1] py_or_moderate[OF ok(5) z, THEN conjunct2]
  note conf = py_or_moderate[OF ok(6) z, THEN conjunct1] py_or_moderate[OF ok(6) z, THEN conjunct2]
  note risk = py_or_moderate[OF ok(7) z, THEN conjunct1] py_or_moderate[OF ok(7) z, THEN conjunct2]
  note reach = py_or_moderate[OF ok(8) z, THEN conjunct1] py_or_moderate[OF ok(8) z, THEN conjunct2]
  obtain m where m: "monthly_benefit_of ?fte ?rate ?costs ?rev = Inr m"
      "py_num m = Some (expected_monthly_benefit inputs)" "is_float m"
      "\<bar>expected_monthly_benefit inputs\<bar> \<le> 2 ^ 53"
    using monthly_benefit_of_moderate[OF fte rate costs rev]
    unfolding expected_monthly_benefit_def by blast
  have bic: "\<bar>expected_implementation_cost inputs\<bar> \<le> 2 ^ 53"
    using abs_mult_bound[OF ttv(2) rate(2)] by (simp add: expected_implementation_cost_def)
  obtain ic where ic: "py_mul ?ttv ?rate = Inr ic"
      "py_num ic = Some (expected_implementation_cost inputs)"
    using py_mul_safe[OF safe_moderate[OF ttv] safe_moderate[OF rate] ttv(1) rate(1)]
    unfolding expected_implementation_cost_def by blast
  have sic: "safe ic" by (rule safe_bound[OF ic(2) bic])
  have sm: "safe m" by (rule safe_bound[OF m(2,4)])
  note pb = payback_of_safe[OF sic ic(2) sm m(2)]
  obtain a where a: "annual_roi_of ic m = Inr a"
      "py_num a = Some (if expected_implementation_cost inputs > 0
                then (12 * expected_monthly_benefit inputs - expected_implementation_cost inputs)
                       / max (expected_implementation_cost inputs) (1 / 100) * 100
                else 0)"
    using annual_roi_of_safe[OF ic(2) bic m(2,4,3)] by blast
  have sv: "strategic_value_of ?risk ?reach ?conf = Inr (PFloat (Finite (expected_strategic_value inputs)))"
    using strategic_value_of_moderate[OF risk reach conf]
    by (simp add: expected_strategic_value_def)
  obtain l where l: "py_mul ?fte ?rate = Inr l" "py_num l = Some (?h * ?w)"
    using py_mul_safe[OF safe_moderate[OF fte] safe_moderate[OF rate] fte(1) rate(1)] by blast
  have cm: "py_truediv ?costs (PInt 12) = Inr (PFloat (Finite (?c / 12)))"
    by (rule over_twelve[OF costs])
  have rm: "py_truediv ?rev (PInt 12) = Inr (PFloat (Finite (?v / 12)))"
    by (rule over_twelve[OF rev])
  have p12: "py_num (PInt 12) = Some 12" by simp
  obtain y where y: "py_mul m (PInt 12) = Inr y"
      "py_num y = Some (expected_monthly_benefit inputs * 12)"
    using py_mul_safe[OF sm safe_literal(1) m(2) p12] by blast
  have "calculate_roi_with_inputs inputs = Inr
     \<lparr> labor_savings_monthly = l,
       cost_avoidance_monthly = PFloat (Finite (?c / 12)),
       revenue_monthly = PFloat (Finite (?v / 12)),
       monthly_benefit = m, annual_benefit = y, implementation_cost = ic,
       payback_period_months = (if expected_monthly_benefit inputs > 0
           then PFloat (Finite (expected_implementation_cost inputs
                                  / max (expected_monthly_benefit inputs) (1 / 100)))
           else PFloat (Infinite True)),
       annual_roi_percentage = a, confidence_score = ?conf, risk_mitigation_score = ?risk,
       customer_reach_score = ?reach,
       strategic_value = PFloat (Finite (expected_strategic_value inputs)),
       time_to_value_hours = ?ttv, fte_hours_saved = ?fte, costs_saved_annual = ?costs,
       revenue_generated_annual = ?rev \<rparr>"
    unfolding calculate_roi_with_inputs_def Let_def
    by (simp only: m(1) ic(1) pb a(1) sv l(1) cm rm y(1) bind_err_def sum.case)
  then show ?thesis
    using m(2) y(2) ic(2) a(2) l(2) conf(1) risk(1) reach(1) by simp
qed

section \<open>What a returned result satisfies\<close>

lemma calc_returns:
  assumes "calculate_roi_with_inputs inputs = Inr r"
  shows "payback_of (implementation_cost r) (monthly_benefit r) = Inr (payback_period_months r)"
    and "annual_roi_of (implementation_cost r) (monthly_benefit r) = Inr (annual_roi_percentage r)"
    and "strategic_value_of (risk_mitigation_score r) (customer_reach_score r) (confidence_score r)
           = Inr (strategic_value r)"
    and "risk_mitigation_score r = py_or (dict_get inputs ''risk_mitigation_score'') (PInt 0)"
    and "customer_reach_score r = py_or (dict_get inputs ''customer_reach_score'') (PInt 0)"
    and "confidence_score r = py_or (dict_get inputs ''confidence_level'') (PInt 0)"
  using assms unfolding calculate_roi_with_inputs_def Let_def bind_err_Inr by auto

lemma at_least_cases:
  assumes "at_least v c"
  obtains n where "v = PInt n" "c \<le> real_of_int n"
  | x where "v = PFloat (Finite x)" "c \<le> x"
  | "v = PFloat (Infinite True)"
  using assms by (auto simp: at_least_def split: pyval.splits pyfloat.splits)

lemma at_least_floor:
  assumes "at_least v c" and "0 < c"
  shows "py_gt v 0 = Inr True" and "py_max v c = Inr v"
  by (rule at_least_cases[OF assms(1)]; use assms(2) in auto)+

lemma below_floor:
  assumes "below v c"
  shows "py_max v c = Inr (PFloat (Finite c))"
  using assms by (cases v) (auto simp: below_def)

lemma payback_of_at_least:
  assumes "at_least monthly (1 / 100)"
  shows "payback_of cost monthly = plain_payback cost monthly"
  using at_least_floor[OF assms]
  by (simp add: payback_of_def plain_payback_def bind_err_def)

lemma payback_of_below:
  assumes "positive monthly" and "below monthly (1 / 100)"
  shows "payback_of cost monthly = py_truediv cost one_cent"
  using assms(1) below_floor[OF assms(2)]
  by (simp add: payback_of_def positive_def one_cent_def bind_err_def)

lemma annual_roi_of_at_least:
  assumes "at_least cost (1 / 100)"
  shows "annual_roi_of cost monthly = plain_roi cost monthly"
proof -
  have "bind_err (py_max cost (1 / 100)) f = f cost" for f :: "pyval \<Rightarrow> pyerr + pyval"
    using at_least_floor(2)[OF assms] by (simp add: bind_err_def)
  then show ?thesis
    using at_least_floor(1)[OF assms]
    by (simp add: annual_roi_of_def plain_roi_def roi_over_def bind_err_def
             split: sum.splits)
qed

lemma annual_roi_of_below:
  assumes "positive cost" and "below cost (1 / 100)"
  shows "annual_roi_of cost monthly = roi_over one_cent cost monthly"
  using assms(1) below_floor[OF assms(2)]
  by (simp add: annual_roi_of_def roi_over_def positive_def one_cent_def bind_err_def
           split: sum.splits)






section \<open>Scores and non-negative fields\<close>

lemma py_or_score:
  assumes "score_absent_or_on_scale inputs k"
  shows "py_num (py_or (dict_get inputs k) (PInt 0)) = Some (field_or inputs k 0)
         \<and> 0 \<le> field_or inputs k 0 \<and> field_or inputs k 0 \<le> 5"
proof (cases "inputs k")
  case None
  then show ?thesis by (simp add: py_or_def dict_get_def field_or_def)
next
  case (Some v)
  show ?thesis
  proof (cases "v = PNone")
    case True
    then show ?thesis using Some by (simp add: py_or_def dict_get_def field_or_def)
  next
    case False
    then have "score_on_scale inputs k"
      using assms Some by (cases v) (simp_all add: score_absent_or_on_scale_def)
    then obtain x where x: "py_num v = Some x" "1 \<le> x" "x \<le> 5"
      using Some by (auto simp: score_on_scale_def split: option.splits)
    have t: "truthy v"
      using x(1,2) by (cases v rule: py_num.cases) auto
    show ?thesis using Some x t
      by (simp add: py_or_def dict_get_def field_or_def)
  qed
qed

lemma field_or_on_scale:
  assumes "score_on_scale inputs k"
  shows "1 \<le> field_or inputs k 0"
  using assms
  by (auto simp: score_on_scale_def field_or_def dict_get_def split: option.splits)




lemma strategic_in_range:
  assumes "calculate_roi_with_inputs inputs = Inr r"
    and "list_all (score_absent_or_on_scale inputs) score_fields"
  shows "\<exists>sv. py_num (strategic_value r) = Some sv \<and> 0 \<le> sv \<and> sv \<le> 5
           \<and> (list_all (score_on_scale inputs) score_fields \<longrightarrow> 1 \<le> sv)"
proof -
  let ?a = "field_or inputs ''risk_mitigation_score'' 0"
  let ?b = "field_or inputs ''customer_reach_score'' 0"
  let ?c = "field_or inputs ''confidence_level'' 0"
  have ok: "score_absent_or_on_scale inputs ''risk_mitigation_score''"
    "score_absent_or_on_scale inputs ''customer_reach_score''"
    "score_absent_or_on_scale inputs ''confidence_level''"
    using assms(2) by (simp_all add: score_fields_def)
  note a = py_or_score[OF ok(1)] and b = py_or_score[OF ok(2)] and c = py_or_score[OF ok(3)]
  have small: "\<bar>?a\<bar> \<le> 2 ^ 26" "\<bar>?b\<bar> \<le> 2 ^ 26" "\<bar>?c\<bar> \<le> 2 ^ 26"
    using a b c by simp_all
  have "strategic_value_of (risk_mitigation_score r) (customer_reach_score r) (confidence_score r)
          = Inr (PFloat (Finite ((?a + ?b + ?c) / 3)))"
    unfolding calc_returns(4,5,6)[OF assms(1)]
    using strategic_value_of_moderate[OF a[THEN conjunct1] small(1) b[THEN conjunct1] small(2)
        c[THEN conjunct1] small(3)] .
  then have sv: "strategic_value r = PFloat (Finite ((?a + ?b + ?c) / 3))"
    using calc_returns(3)[OF assms(1)] by simp
  have range: "0 \<le> (?a + ?b + ?c) / 3" "(?a + ?b + ?c) / 3 \<le> 5"
    using a b c by simp_all
  have low: "1 \<le> (?a + ?b + ?c) / 3" if "list_all (score_on_scale inputs) score_fields"
  proof -
    have "1 \<le> ?a" "1 \<le> ?b" "1 \<le> ?c"
      using that by (simp_all add: score_fields_def field_or_on_scale)
    then show ?thesis by simp
  qed
  have "py_num (strategic_value r) = Some ((?a + ?b + ?c) / 3)"
    using sv by simp
  then show ?thesis using range low by blast
qed


lemmas calc_defs = calculate_roi_with_inputs_def monthly_benefit_of_def payback_of_def
  annual_roi_of_def strategic_value_of_def bind_err_def py_or_def dict_get_def
  blended_hourly_rate_def float_div_def fsub_def fl_def overflow_threshold_def
  int_to_float_def Let_def


lemmas domain_defs = numeric_inputs_def numeric_or_missing_def roi_fields_def
  nonneg_inputs_def nonneg_or_missing_def moderate_inputs_def moderate_or_missing_def
  moderate_def

lemma int_to_float_huge: "int_to_float huge_int = Inl OverflowError"
proof -
  have b: "bitlen (2 ^ 1024) = 1025"
    using bitlen_twopow_add_eq[of 0 1024] by simp
  have s: "nat (bitlen (2 ^ 1024) - 53) = 972"
    unfolding b by simp
  have a: "\<bar>2 ^ 1024 :: int\<bar> = 2 ^ 1024" by simp
  have big: "\<not> (2 ^ 1024 :: int) \<le> 2 ^ 53" by simp
  have q: "(2 ^ 1024 :: int) div 2 ^ 972 = 2 ^ 52" "(2 ^ 1024 :: int) mod 2 ^ 972 = 0"
    by simp_all
  show ?thesis
    unfolding int_to_float_def huge_int_def Let_def a s q using big by simp
qed



section \<open>The formula engine: totality and defaults\<close>




section \<open>The formula engine: payback period and annual ROI\<close>

text \<open>
  C1. For every input record on which \<^verbatim>\<open>calculate_roi_with_inputs\<close> returns: when
  the returned monthly benefit is at least 0.01, the returned payback period is
  exactly \<^verbatim>\<open>implementation_cost / monthly_benefit\<close> of the returned values, and
  when the returned implementation cost is at least 0.01, the returned annual ROI is
  exactly \<^verbatim>\<open>((12 * monthly_benefit) - implementation_cost) / implementation_cost
  * 100\<close>. Below one cent the code divides by 0.01 instead. On records whose fields
  are each absent, \<^verbatim>\<open>None\<close> or a number of magnitude at most \<open>2 ^ 26\<close> the
  function returns and these are the real quotients: with \<open>mb\<close> and \<open>ic\<close> the
  returned benefit and cost, \<open>ic / mb\<close> for \<open>mb \<ge> 0.01\<close> and \<open>ic / 0.01\<close> for
  \<open>0 < mb < 0.01\<close>; \<open>(12 * mb - ic) / ic * 100\<close> for \<open>ic \<ge> 0.01\<close> and
  \<open>(12 * mb - ic) / 0.01 * 100\<close> for \<open>0 < ic < 0.01\<close>.
\<close>

theorem payback_and_roi_above_one_cent:
  "(\<forall>r. calculate_roi_with_inputs inputs = Inr r \<longrightarrow>
      (at_least (monthly_benefit r) (1 / 100) \<longrightarrow>
         plain_payback (implementation_cost r) (monthly_benefit r) = Inr (payback_period_months r))
    \<and> (positive (monthly_benefit r) \<and> below (monthly_benefit r) (1 / 100) \<longrightarrow>
         py_truediv (implementation_cost r) one_cent = Inr (payback_period_months r))
    \<and> (at_least (implementation_cost r) (1 / 100) \<longrightarrow>
         plain_roi (implementation_cost r) (monthly_benefit r) = Inr (annual_roi_percentage r))
    \<and> (positive (implementation_cost r) \<and> below (implementation_cost r) (1 / 100) \<longrightarrow>
         roi_over one_cent (implementation_cost r) (monthly_benefit r)
           = Inr (annual_roi_percentage r)))
   \<and> (moderate_inputs inputs \<longrightarrow>
        (\<exists>r mb ic. calculate_roi_with_inputs inputs = Inr r
          \<and> py_num (monthly_benefit r) = Some mb
          \<and> py_num (implementation_cost r) = Some ic
          \<and> (1 / 100 \<le> mb \<longrightarrow> payback_period_months r = PFloat (Finite (ic / mb)))
          \<and> (0 < mb \<and> mb < 1 / 100 \<longrightarrow>
                payback_period_months r = PFloat (Finite (ic / (1 / 100))))
          \<and> (1 / 100 \<le> ic \<longrightarrow>
                py_num (annual_roi_percentage r) = Some ((12 * mb - ic) / ic * 100))
          \<and> (0 < ic \<and> ic < 1 / 100 \<longrightarrow>
                py_num (annual_roi_percentage r) = Some ((12 * mb - ic) / (1 / 100) * 100))))"
proof (intro conjI allI impI)
  fix r assume r: "calculate_roi_with_inputs inputs = Inr r"
  note pb = calc_returns(1)[OF r] and roi = calc_returns(2)[OF r]
  {
    assume "at_least (monthly_benefit r) (1 / 100)"
    then show "plain_payback (implementation_cost r) (monthly_benefit r)
                 = Inr (payback_period_months r)"
      using pb payback_of_at_least by simp
  }
  {
    assume "positive (monthly_benefit r) \<and> below (monthly_benefit r) (1 / 100)"
    then show "py_truediv (implementation_cost r) one_cent = Inr (payback_period_months r)"
      using pb payback_of_below by simp
  }
  {
    assume "at_least (implementation_cost r) (1 / 100)"
    then show "plain_roi (implementation_cost r) (monthly_benefit r)
                 = Inr (annual_roi_percentage r)"
      using roi annual_roi_of_at_least by simp
  }
  {
    assume "positive (implementation_cost r) \<and> below (implementation_cost r) (1 / 100)"
    then show "roi_over one_cent (implementation_cost r) (monthly_benefit r)
                 = Inr (annual_roi_percentage r)"
      using roi annual_roi_of_below by simp
  }
next
  assume m: "moderate_inputs inputs"
  obtain r where r: "calculate_roi_with_inputs inputs = Inr r"
    "py_num (monthly_benefit r) = Some (expected_monthly_benefit inputs)"
    "py_num (implementation_cost r) = Some (expected_implementation_cost inputs)"
    "payback_period_months r =
          (if expected_monthly_benefit inputs > 0
           then PFloat (Finite (expected_implementation_cost inputs
                                  / max (expected_monthly_benefit inputs) (1 / 100)))
           else PFloat (Infinite True))"
    "py_num (annual_roi_percentage r) =
          Some (if expected_implementation_cost inputs > 0
                then (12 * expected_monthly_benefit inputs - expected_implementation_cost inputs)
                       / max (expected_implementation_cost inputs) (1 / 100) * 100
                else 0)"
    using calc_moderate[OF m] by blast
  let ?mb = "expected_monthly_benefit inputs" and ?ic = "expected_implementation_cost inputs"
  have p1: "1 / 100 \<le> ?mb \<longrightarrow> payback_period_months r = PFloat (Finite (?ic / ?mb))"
    using r(4) by (simp add: max_def)
  have p2: "0 < ?mb \<and> ?mb < 1 / 100 \<longrightarrow>
      payback_period_months r = PFloat (Finite (?ic / (1 / 100)))"
    using r(4) by (simp add: max_def)
  have a1: "1 / 100 \<le> ?ic \<longrightarrow> py_num (annual_roi_percentage r) = Some ((12 * ?mb - ?ic) / ?ic * 100)"
    using r(5) by (simp add: max_def)
  have a2: "0 < ?ic \<and> ?ic < 1 / 100 \<longrightarrow>
      py_num (annual_roi_percentage r) = Some ((12 * ?mb - ?ic) / (1 / 100) * 100)"
    using r(5) by (simp add: max_def)
  show "\<exists>r mb ic. calculate_roi_with_inputs inputs = Inr r
          \<and> py_num (monthly_benefit r) = Some mb
          \<and> py_num (implementation_cost r) = Some ic
          \<and> (1 / 100 \<le> mb \<longrightarrow> payback_period_months r = PFloat (Finite (ic / mb)))
          \<and> (0 < mb \<and> mb < 1 / 100 \<longrightarrow>
                payback_period_months r = PFloat (Finite (ic / (1 / 100))))
          \<and> (1 / 100 \<le> ic \<longrightarrow>
                py_num (annual_roi_percentage r) = Some ((12 * mb - ic) / ic * 100))
          \<and> (0 < ic \<and> ic < 1 / 100 \<longrightarrow>
                py_num (annual_roi_percentage r) = Some ((12 * mb - ic) / (1 / 100) * 100))"
    using r(1,2,3) p1 p2 a1 a2 by blast
qed

text \<open>The worked example of the spec: a monthly benefit of 800 against a cost of 1000.\<close>

theorem payback_and_roi_above_one_cent_witness:
  "moderate_inputs roi_example
   \<and> returned (calculate_roi_with_inputs roi_example) monthly_benefit = Some 800
   \<and> returned (calculate_roi_with_inputs roi_example) implementation_cost = Some 1000
   \<and> returned (calculate_roi_with_inputs roi_example) payback_period_months = Some (1000 / 800)
   \<and> returned (calculate_roi_with_inputs roi_example) annual_roi_percentage
        = Some ((12 * 800 - 1000) / 1000 * 100)"
proof -
  have h: "moderate_inputs roi_example"
    by (simp add: roi_example_def domain_defs)
  have c: "returned (calculate_roi_with_inputs roi_example) monthly_benefit = Some 800"
    "returned (calculate_roi_with_inputs roi_example) implementation_cost = Some 1000"
    by (simp_all add: roi_example_def calc_defs returned_def)
  show ?thesis
    using h c payback_and_roi_above_one_cent[of roi_example]
    by (auto simp: returned_def)
qed

text \<open>
  The claim as stated, with no epsilon in a positive denominator, fails for a
  monthly benefit and an implementation cost of 1/256: the quotient of the two is
  1 and the code returns 25/64; the claimed ROI is 1100 and the code returns
  429.6875.
\<close>

theorem payback_and_roi_exact_counterexample:
  "returned (calculate_roi_with_inputs tiny_benefit) monthly_benefit = Some (1 / 256)
   \<and> returned (calculate_roi_with_inputs tiny_benefit) implementation_cost = Some (1 / 256)
   \<and> returned (calculate_roi_with_inputs tiny_benefit) payback_period_months = Some (25 / 64)
   \<and> (1 / 256) / (1 / 256) \<noteq> (25 / 64 :: real)
   \<and> returned (calculate_roi_with_inputs tiny_benefit) annual_roi_percentage = Some (6875 / 16)
   \<and> (12 * (1 / 256) - 1 / 256) / (1 / 256) * 100 \<noteq> (6875 / 16 :: real)"
  by (simp add: tiny_benefit_def calc_defs returned_def)

section \<open>The formula engine: ranges of the results\<close>

text \<open>
  C4. For every input record whose three scores are each on the 1-5 scale, the
  strategic value returned by \<^verbatim>\<open>calculate_roi_with_inputs\<close> is a real number
  in [1, 5]. A score that is absent or \<^verbatim>\<open>None\<close> counts as 0, so for records
  whose scores are each absent, \<^verbatim>\<open>None\<close> or on the scale the strategic value
  is a real number in [0, 5]. This holds of every result the function returns, and
  it returns one when the fields are of magnitude at most \<open>2 ^ 26\<close>.
\<close>

theorem strategic_value_range:
  assumes "list_all (score_absent_or_on_scale inputs) score_fields"
  shows "(\<forall>r. calculate_roi_with_inputs inputs = Inr r \<longrightarrow>
            (\<exists>sv. py_num (strategic_value r) = Some sv
              \<and> 0 \<le> sv \<and> sv \<le> 5
              \<and> (list_all (score_on_scale inputs) score_fields \<longrightarrow> 1 \<le> sv)))
         \<and> (moderate_inputs inputs \<longrightarrow> (\<exists>r. calculate_roi_with_inputs inputs = Inr r))"
proof -
  have "\<exists>r. calculate_roi_with_inputs inputs = Inr r" if "moderate_inputs inputs"
    using calc_moderate[OF that] by blast
  then show ?thesis using strategic_in_range[OF _ assms] by blast
qed

text \<open>Scores 1, 5 and 2: all on the scale.\<close>

theorem strategic_value_range_witness:
  "list_all (score_absent_or_on_scale scored_inputs) score_fields
   \<and> list_all (score_on_scale scored_inputs) score_fields
   \<and> moderate_inputs scored_inputs
   \<and> (\<exists>sv. returned (calculate_roi_with_inputs scored_inputs) strategic_value = Some sv
          \<and> 1 \<le> sv \<and> sv \<le> 5)"
proof -
  have h: "moderate_inputs scored_inputs"
    by (simp add: scored_inputs_def domain_defs)
  have s: "list_all (score_on_scale scored_inputs) score_fields"
    by (simp add: scored_inputs_def score_fields_def score_on_scale_def)
  have a: "list_all (score_absent_or_on_scale scored_inputs) score_fields"
    by (simp add: scored_inputs_def score_fields_def score_on_scale_def
          score_absent_or_on_scale_def)
  show ?thesis
    using h a s strategic_value_range[OF a] by (auto simp: returned_def)
qed

text \<open>
  The record the extraction adapter creates for a use case nobody has scored yet
  has \<^verbatim>\<open>None\<close> under the three scores: its strategic value is 0, below 1.
\<close>

theorem strategic_value_range_counterexample:
  "returned (calculate_roi_with_inputs unfilled_inputs) strategic_value = Some 0
   \<and> \<not> (1 \<le> (0 :: real))"
  by (simp add: unfilled_inputs_def calc_defs returned_def)







section \<open>The store: the upsert and the uniqueness of titles\<close>

lemma replace_titles:
  "map use_case_title (map (\<lambda>r. if use_case_title r = use_case_title new then new else r) rows)
     = map use_case_title rows"
  by (induction rows) auto

lemma list_ex_title:
  "list_ex (\<lambda>r. use_case_title r = t) rows \<longleftrightarrow> t \<in> set (map use_case_title rows)"
  by (induction rows) auto

lemma upsert_titles:
  "map use_case_title (upsert new rows) =
     (if use_case_title new \<in> set (map use_case_title rows)
      then map use_case_title rows else map use_case_title rows @ [use_case_title new])"
  unfolding upsert_def list_ex_title by (simp add: replace_titles)

lemma upsert_distinct:
  "distinct (map use_case_title rows) \<Longrightarrow> distinct (map use_case_title (upsert new rows))"
  by (simp add: upsert_titles)

lemma replace_other:
  "t \<noteq> use_case_title new \<Longrightarrow>
     filter (\<lambda>r. use_case_title r = t)
       (map (\<lambda>r. if use_case_title r = use_case_title new then new else r) rows)
     = filter (\<lambda>r. use_case_title r = t) rows"
  by (induction rows) auto

lemma upsert_other:
  "t \<noteq> use_case_title new \<Longrightarrow>
     filter (\<lambda>r. use_case_title r = t) (upsert new rows) = filter (\<lambda>r. use_case_title r = t) rows"
  by (simp add: upsert_def replace_other)

lemma upsert_set:
  "set (filter (\<lambda>r. use_case_title r = use_case_title new) (upsert new rows)) = {new}"
  by (auto simp: upsert_def list_ex_iff)

lemma distinct_titles_le_one:
  "distinct (map use_case_title rows) \<Longrightarrow>
     length (filter (\<lambda>r. use_case_title r = t) rows) \<le> 1"
proof (induction rows)
  case Nil
  then show ?case by simp
next
  case (Cons a rows)
  show ?case
  proof (cases "use_case_title a = t")
    case True
    have "use_case_title a \<notin> use_case_title ` set rows"
      using Cons.prems by simp
    then have "\<forall>r \<in> set rows. use_case_title r \<noteq> t"
      using True by blast
    then have "filter (\<lambda>r. use_case_title r = t) rows = []"
      by (simp add: filter_empty_conv)
    then show ?thesis using True by simp
  next
    case False
    have "length (filter (\<lambda>r. use_case_title r = t) rows) \<le> 1"
      using Cons.IH Cons.prems by simp
    then show ?thesis using False by simp
  qed
qed

lemma singleton_list:
  assumes "length ys \<le> 1" and "set ys = {x}"
  shows "ys = [x]"
proof (cases ys)
  case Nil
  then show ?thesis using assms(2) by simp
next
  case (Cons y zs)
  then have "zs = []" using assms(1) by simp
  then show ?thesis using Cons assms(2) by simp
qed

lemma distinct_titles_one:
  assumes "distinct (map use_case_title rows)"
    and "set (filter (\<lambda>r. use_case_title r = t) rows) = {x}"
  shows "filter (\<lambda>r. use_case_title r = t) rows = [x]"
  using singleton_list[OF distinct_titles_le_one[OF assms(1)] assms(2)] .

lemma upsert_one:
  assumes "distinct (map use_case_title rows)"
  shows "filter (\<lambda>r. use_case_title r = use_case_title new) (upsert new rows) = [new]"
  using distinct_titles_one[OF upsert_distinct[OF assms] upsert_set] .

lemma upsert_find:
  "find (\<lambda>r. use_case_title r = use_case_title new) (upsert new rows) = Some new"
proof (cases "list_ex (\<lambda>r. use_case_title r = use_case_title new) rows")
  case True
  then have "find (\<lambda>r. use_case_title r = use_case_title new)
     (map (\<lambda>r. if use_case_title r = use_case_title new then new else r) rows) = Some new"
    by (induction rows) auto
  then show ?thesis using True by (simp add: upsert_def)
next
  case False
  then have "find (\<lambda>r. use_case_title r = use_case_title new) rows = None"
    by (simp add: find_None_iff list_ex_iff)
  then have "find (\<lambda>r. use_case_title r = use_case_title new) (rows @ [new]) = Some new"
    by (induction rows) (auto split: if_splits)
  then show ?thesis using False by (simp add: upsert_def)
qed

lemma insert_values_key:
  assumes "insert_values P title inputs bu now = Inr new"
  shows "use_case_title new = title \<and> updated_at new = now
         \<and> business_unit new = unit_or_unknown bu"
  using assms unfolding insert_values_def bind_err_Inr by clarsimp

lemma insert_values_clock:
  assumes "insert_values P title inputs bu now = Inr new"
  shows "insert_values P title inputs bu later = Inr (new\<lparr>updated_at := later\<rparr>)"
  using assms unfolding insert_values_def bind_err_Inr by clarsimp

lemma save_live:
  assumes "connection s = Some Live"
    and "insert_values P title inputs bu (current_timestamp s) = Inr new"
  shows "save_roi_inputs P s title inputs bu = (True, s\<lparr>roi_inputs := upsert new (roi_inputs s)\<rparr>)"
  using assms by (simp add: save_roi_inputs_def)

lemma save_rows:
  "roi_inputs (snd (save_roi_inputs P s title inputs bu)) = roi_inputs s
   \<or> (\<exists>new. roi_inputs (snd (save_roi_inputs P s title inputs bu)) = upsert new (roi_inputs s))"
proof (cases "connection s")
  case None
  then show ?thesis by (simp add: save_roi_inputs_def)
next
  case (Some c)
  show ?thesis
  proof (cases c)
    case Closed
    then show ?thesis using Some by (simp add: save_roi_inputs_def)
  next
    case Live
    show ?thesis
    proof (cases "insert_values P title inputs bu (current_timestamp s)")
      case (Inl e)
      then show ?thesis using Some Live by (simp add: save_roi_inputs_def)
    next
      case (Inr new)
      then have "roi_inputs (snd (save_roi_inputs P s title inputs bu)) = upsert new (roi_inputs s)"
        using Some Live by (simp add: save_roi_inputs_def)
      then show ?thesis by blast
    qed
  qed
qed

lemma save_distinct:
  assumes "distinct (map use_case_title (roi_inputs s))"
  shows "distinct (map use_case_title (roi_inputs (snd (save_roi_inputs P s title inputs bu))))"
  using save_rows[of P s title inputs bu] assms upsert_distinct by auto

lemma delete_distinct:
  assumes "distinct (map use_case_title (roi_inputs s))"
  shows "distinct (map use_case_title (roi_inputs (snd (delete_roi_inputs s title))))"
  using assms
  by (auto simp: delete_roi_inputs_def Let_def distinct_map_filter
           split: option.splits pg_connection.splits)

lemma step_distinct:
  assumes "distinct (map use_case_title (roi_inputs s))"
  shows "distinct (map use_case_title (roi_inputs (step P s e)))"
proof (cases e)
  case (Save title inputs bu)
  then show ?thesis using save_distinct[OF assms] by simp
next
  case (Delete title)
  then show ?thesis using delete_distinct[OF assms] by simp
next
  case Close
  then show ?thesis using assms by (simp add: close_def split: option.splits)
next
  case (Tick d)
  then show ?thesis using assms by simp
qed

lemma reachable_distinct:
  "reachable P s \<Longrightarrow> distinct (map use_case_title (roi_inputs s))"
proof (induction rule: reachable.induct)
  case (reach_start c t)
  then show ?case by (simp add: new_store_def)
next
  case (reach_step s e)
  then show ?case by (simp add: step_distinct)
qed

lemmas store_defs = save_roi_inputs_def load_roi_inputs_def delete_roi_inputs_def
  insert_values_def upsert_def rows_for_def new_store_def no_parsers_def bind_err_def
  dict_get_default_def unit_or_unknown_def row_dict_def loaded_field_def close_def
  int_to_float_def Let_def

text \<open>
  C5. In every reachable state of the store at most one row exists per
  \<^verbatim>\<open>use_case_title\<close>. On a live connection a save whose values can be coerced
  returns \<^verbatim>\<open>True\<close> and leaves exactly one row for the title, the proposed row
  itself, so every other field is replaced and \<^verbatim>\<open>updated_at\<close> is the current
  timestamp; rows of other titles stay as they were. Saving the same title and
  fields again, after the clock has advanced by any \<open>d\<close>, again leaves exactly one
  row, with \<^verbatim>\<open>updated_at\<close> not earlier than before.
\<close>

theorem upsert_keeps_titles_unique:
  assumes "reachable P s"
  shows "distinct (map use_case_title (roi_inputs s))
    \<and> (\<forall>title inputs bu new d.
          connection s = Some Live
          \<and> insert_values P title inputs bu (current_timestamp s) = Inr new
        \<longrightarrow> fst (save_roi_inputs P s title inputs bu)
          \<and> rows_for (step P s (Save title inputs bu)) title = [new]
          \<and> use_case_title new = title \<and> updated_at new = current_timestamp s
          \<and> (\<forall>other. other \<noteq> title \<longrightarrow>
                rows_for (step P s (Save title inputs bu)) other = rows_for s other)
          \<and> rows_for (step P (step P (step P s (Save title inputs bu)) (Tick d))
                         (Save title inputs bu)) title
              = [new\<lparr>updated_at := current_timestamp s + d\<rparr>]
          \<and> updated_at new \<le> current_timestamp s + d)"
proof -
  have inv: "distinct (map use_case_title (roi_inputs s))"
    by (rule reachable_distinct[OF assms])
  have main: "fst (save_roi_inputs P s title inputs bu)
          \<and> rows_for (step P s (Save title inputs bu)) title = [new]
          \<and> use_case_title new = title \<and> updated_at new = current_timestamp s
          \<and> (\<forall>other. other \<noteq> title \<longrightarrow>
                rows_for (step P s (Save title inputs bu)) other = rows_for s other)
          \<and> rows_for (step P (step P (step P s (Save title inputs bu)) (Tick d))
                         (Save title inputs bu)) title
              = [new\<lparr>updated_at := current_timestamp s + d\<rparr>]
          \<and> updated_at new \<le> current_timestamp s + d"
    if live: "connection s = Some Live"
      and new: "insert_values P title inputs bu (current_timestamp s) = Inr new"
    for title inputs bu new d
  proof -
    let ?t1 = "s\<lparr>roi_inputs := upsert new (roi_inputs s)\<rparr>"
    let ?t2 = "?t1\<lparr>current_timestamp := current_timestamp s + d\<rparr>"
    let ?new' = "new\<lparr>updated_at := current_timestamp s + d\<rparr>"
    let ?t3 = "?t2\<lparr>roi_inputs := upsert ?new' (roi_inputs ?t2)\<rparr>"
    have key: "use_case_title new = title" "updated_at new = current_timestamp s"
      using insert_values_key[OF new] by simp_all
    have sv: "save_roi_inputs P s title inputs bu = (True, ?t1)"
      by (rule save_live[OF live new])
    have e1: "step P s (Save title inputs bu) = ?t1"
      using sv by simp
    have e2: "step P ?t1 (Tick d) = ?t2"
      by simp
    have live2: "connection ?t2 = Some Live"
      using live by simp
    have new': "insert_values P title inputs bu (current_timestamp ?t2) = Inr ?new'"
      using insert_values_clock[OF new] by simp
    have "save_roi_inputs P ?t2 title inputs bu = (True, ?t3)"
      by (rule save_live[OF live2 new'])
    then have e3: "step P ?t2 (Save title inputs bu) = ?t3"
      by simp
    have one: "rows_for ?t1 title = [new]"
      using upsert_one[OF inv, of new] key(1) by (simp add: rows_for_def)
    have others: "\<forall>other. other \<noteq> title \<longrightarrow> rows_for ?t1 other = rows_for s other"
      using upsert_other[of _ new "roi_inputs s"] key(1) by (simp add: rows_for_def)
    have inv2: "distinct (map use_case_title (roi_inputs ?t2))"
      using upsert_distinct[OF inv, of new] by simp
    have two: "rows_for ?t3 title = [?new']"
      using upsert_one[OF inv2, of ?new'] key(1) by (simp add: rows_for_def)
    have "fst (save_roi_inputs P s title inputs bu)"
      using sv by simp
    then show ?thesis
      unfolding e1 e2 e3 using one key others two by simp
  qed
  show ?thesis using inv main by blast
qed

lemma reachable_saved_once: "reachable no_parsers saved_once"
  unfolding saved_once_def by (rule reach_step) (rule reach_start)

text \<open>A store holding title A, saved again with other fields, and once more five ticks later.\<close>

theorem upsert_keeps_titles_unique_witness:
  "reachable no_parsers saved_once
   \<and> connection saved_once = Some Live
   \<and> insert_values no_parsers ''A'' free_project None (current_timestamp saved_once) = Inr project_row
   \<and> distinct (map use_case_title (roi_inputs saved_once))
   \<and> rows_for (step no_parsers saved_once (Save ''A'' free_project None)) ''A'' = [project_row]
   \<and> rows_for (step no_parsers (step no_parsers (step no_parsers saved_once
          (Save ''A'' free_project None)) (Tick 5)) (Save ''A'' free_project None)) ''A''
        = [project_row\<lparr>updated_at := 12\<rparr>]
   \<and> updated_at project_row \<le> 12"
proof -
  have l: "connection saved_once = Some Live" "current_timestamp saved_once = 7"
    by (simp_all add: saved_once_def roi_example_def store_defs)
  have n: "insert_values no_parsers ''A'' free_project None (current_timestamp saved_once)
             = Inr project_row"
    unfolding l(2) by (simp add: free_project_def project_row_def store_defs)
  show ?thesis
    using reachable_saved_once l n
      upsert_keeps_titles_unique[OF reachable_saved_once] by fastforce
qed

section \<open>The store: delete\<close>

lemma rowcount_rows_for:
  "length (roi_inputs s) - length (filter (\<lambda>r. use_case_title r \<noteq> title) (roi_inputs s))
     = length (rows_for s title)"
  using sum_length_filter_compl[of "\<lambda>r. use_case_title r = title" "roi_inputs s"]
  by (simp add: rows_for_def)

lemma find_removed:
  "find (\<lambda>r. use_case_title r = title) (filter (\<lambda>r. use_case_title r \<noteq> title) rows) = None"
  by (simp add: find_None_iff)

text \<open>
  C8. \<^verbatim>\<open>delete_roi_inputs\<close> returns \<^verbatim>\<open>True\<close> exactly when the connection is
  live and the store holds a row with the title: on a live connection the statement
  removes every row of the title and leaves the others, and otherwise the store is
  unchanged. So it returns \<^verbatim>\<open>False\<close> when no row with the title is in the
  store, returns \<^verbatim>\<open>True\<close> exactly when the table lost a row, and after a
  delete that returned \<^verbatim>\<open>True\<close> the title has no row left and
  \<^verbatim>\<open>load_roi_inputs\<close> returns \<^verbatim>\<open>None\<close> for it.
\<close>

theorem delete_correct:
  "(fst (delete_roi_inputs s title) \<longleftrightarrow> connection s = Some Live \<and> rows_for s title \<noteq> [])
   \<and> (connection s = Some Live \<longrightarrow>
        roi_inputs (snd (delete_roi_inputs s title))
          = filter (\<lambda>r. use_case_title r \<noteq> title) (roi_inputs s))
   \<and> (connection s \<noteq> Some Live \<longrightarrow> snd (delete_roi_inputs s title) = s)
   \<and> (rows_for s title = [] \<longrightarrow> \<not> fst (delete_roi_inputs s title))
   \<and> (fst (delete_roi_inputs s title) \<longleftrightarrow>
        length (roi_inputs (snd (delete_roi_inputs s title))) < length (roi_inputs s))
   \<and> (fst (delete_roi_inputs s title) \<longrightarrow>
        rows_for s title \<noteq> []
        \<and> rows_for (snd (delete_roi_inputs s title)) title = []
        \<and> load_roi_inputs (snd (delete_roi_inputs s title)) title = None)
   \<and> (\<forall>other. other \<noteq> title \<longrightarrow>
        rows_for (snd (delete_roi_inputs s title)) other = rows_for s other)"
proof (cases "connection s = Some Live")
  case False
  then have "delete_roi_inputs s title = (False, s)"
    by (auto simp: delete_roi_inputs_def split: option.splits pg_connection.splits)
  then show ?thesis using False by simp
next
  case True
  let ?kept = "filter (\<lambda>r. use_case_title r \<noteq> title) (roi_inputs s)"
  have rc: "(length (roi_inputs s) - length ?kept > 0) = (rows_for s title \<noteq> [])"
    by (simp only: rowcount_rows_for length_greater_0_conv)
  have d0: "delete_roi_inputs s title
              = (length (roi_inputs s) - length ?kept > 0, s\<lparr>roi_inputs := ?kept\<rparr>)"
    using True by (simp add: delete_roi_inputs_def Let_def)
  have d: "delete_roi_inputs s title = (rows_for s title \<noteq> [], s\<lparr>roi_inputs := ?kept\<rparr>)"
    by (simp only: d0 rc)
  have len: "length ?kept + length (rows_for s title) = length (roi_inputs s)"
    using sum_length_filter_compl[of "\<lambda>r. use_case_title r \<noteq> title" "roi_inputs s"]
    by (simp add: rows_for_def)
  have gone: "rows_for (s\<lparr>roi_inputs := ?kept\<rparr>) title = []"
    by (simp add: rows_for_def)
  have load: "load_roi_inputs (s\<lparr>roi_inputs := ?kept\<rparr>) title = None"
    using True by (simp add: load_roi_inputs_def find_removed)
  have others: "\<forall>other. other \<noteq> title \<longrightarrow>
        rows_for (s\<lparr>roi_inputs := ?kept\<rparr>) other = rows_for s other"
    by (auto simp: rows_for_def intro: filter_cong)
  have less: "rows_for s title \<noteq> [] \<longleftrightarrow> length ?kept < length (roi_inputs s)"
    using len by (cases "rows_for s title") auto
  show ?thesis
    unfolding d using True gone load others less by simp
qed

text \<open>Title B was never saved; title A was, and is gone after the delete.\<close>

theorem delete_correct_witness:
  "connection saved_once = Some Live
   \<and> rows_for saved_once ''A'' \<noteq> []
   \<and> rows_for saved_once ''B'' = []
   \<and> \<not> fst (delete_roi_inputs saved_once ''B'')
   \<and> fst (delete_roi_inputs saved_once ''A'')
   \<and> length (roi_inputs (snd (delete_roi_inputs saved_once ''A''))) < length (roi_inputs saved_once)
   \<and> load_roi_inputs saved_once ''A'' \<noteq> None
   \<and> load_roi_inputs (snd (delete_roi_inputs saved_once ''A'')) ''A'' = None"
proof -
  have b: "rows_for saved_once ''B'' = []"
    by (simp add: saved_once_def roi_example_def store_defs)
  have a: "fst (delete_roi_inputs saved_once ''A'')"
    by (simp add: saved_once_def roi_example_def store_defs)
  have l: "load_roi_inputs saved_once ''A'' \<noteq> None"
    by (simp add: saved_once_def roi_example_def store_defs)
  have c: "connection saved_once = Some Live" "rows_for saved_once ''A'' \<noteq> []"
    by (simp_all add: saved_once_def roi_example_def store_defs)
  show ?thesis
    using a b c l delete_correct[of saved_once "''B''"] delete_correct[of saved_once "''A''"]
    by blast
qed

section \<open>The store: defaults and the round trip\<close>

text \<open>
  C9. On a live connection \<^verbatim>\<open>save_roi_inputs\<close> succeeds when the fields mapping
  is empty and no business unit is given: the row stored for the title has 0 for
  the four amounts, 100 for the two hourly rates, 3 for the three scores and
  \<^verbatim>\<open>'Unknown'\<close> as business unit. For any mapping whose values can be coerced,
  each field that is absent is stored with the same default.
\<close>

theorem save_fills_defaults:
  assumes "connection s = Some Live"
  shows "fst (save_roi_inputs P s title Map.empty None)
    \<and> set (rows_for (snd (save_roi_inputs P s title Map.empty None)) title)
        = {default_row title (current_timestamp s)}
    \<and> (\<forall>inputs bu new. insert_values P title inputs bu (current_timestamp s) = Inr new \<longrightarrow>
          (inputs ''labor_impact_hours'' = None \<longrightarrow> labor_impact_hours new = 0)
        \<and> (inputs ''cost_avoidance_annual'' = None \<longrightarrow> cost_avoidance_annual new = 0)
        \<and> (inputs ''revenue_impact_annual'' = None \<longrightarrow> revenue_impact_annual new = 0)
        \<and> (inputs ''time_to_value_hours'' = None \<longrightarrow> row_time_to_value_hours new = 0)
        \<and> (inputs ''labor_cost_hourly'' = None \<longrightarrow> labor_cost_hourly new = 100)
        \<and> (inputs ''implementation_cost_hourly'' = None \<longrightarrow> implementation_cost_hourly new = 100)
        \<and> (inputs ''risk_mitigation_score'' = None \<longrightarrow> row_risk_mitigation_score new = 3)
        \<and> (inputs ''customer_reach_score'' = None \<longrightarrow> row_customer_reach_score new = 3)
        \<and> (inputs ''confidence_level'' = None \<longrightarrow> confidence_level new = 3)
        \<and> (bu = None \<longrightarrow> business_unit new = ''Unknown''))"
proof -
  have iv: "insert_values P title Map.empty None (current_timestamp s)
              = Inr (default_row title (current_timestamp s))"
    by (simp add: insert_values_def bind_err_def dict_get_default_def unit_or_unknown_def
          default_row_def int_to_float_exact)
  have sv: "save_roi_inputs P s title Map.empty None
              = (True, s\<lparr>roi_inputs := upsert (default_row title (current_timestamp s)) (roi_inputs s)\<rparr>)"
    by (rule save_live[OF assms iv])
  have t: "use_case_title (default_row title (current_timestamp s)) = title"
    by (simp add: default_row_def)
  have rows: "set (rows_for (snd (save_roi_inputs P s title Map.empty None)) title)
        = {default_row title (current_timestamp s)}"
    using upsert_set[of "default_row title (current_timestamp s)" "roi_inputs s"]
    by (simp add: sv rows_for_def t)
  have fields: "(inputs ''labor_impact_hours'' = None \<longrightarrow> labor_impact_hours new = 0)
        \<and> (inputs ''cost_avoidance_annual'' = None \<longrightarrow> cost_avoidance_annual new = 0)
        \<and> (inputs ''revenue_impact_annual'' = None \<longrightarrow> revenue_impact_annual new = 0)
        \<and> (inputs ''time_to_value_hours'' = None \<longrightarrow> row_time_to_value_hours new = 0)
        \<and> (inputs ''labor_cost_hourly'' = None \<longrightarrow> labor_cost_hourly new = 100)
        \<and> (inputs ''implementation_cost_hourly'' = None \<longrightarrow> implementation_cost_hourly new = 100)
        \<and> (inputs ''risk_mitigation_score'' = None \<longrightarrow> row_risk_mitigation_score new = 3)
        \<and> (inputs ''customer_reach_score'' = None \<longrightarrow> row_customer_reach_score new = 3)
        \<and> (inputs ''confidence_level'' = None \<longrightarrow> confidence_level new = 3)
        \<and> (bu = None \<longrightarrow> business_unit new = ''Unknown'')"
    if "insert_values P title inputs bu (current_timestamp s) = Inr new" for inputs bu new
    using that unfolding insert_values_def bind_err_Inr
    by (clarsimp simp: dict_get_default_def unit_or_unknown_def)
       (intro conjI impI; auto simp: int_to_float_exact)
  show ?thesis using sv rows fields by simp
qed

text \<open>The empty mapping, and a mapping with two fields only, on a fresh store.\<close>

theorem save_fills_defaults_witness:
  "connection (new_store (Some Live) 7) = Some Live
   \<and> fst (save_roi_inputs no_parsers (new_store (Some Live) 7) ''A'' Map.empty None)
   \<and> set (rows_for (snd (save_roi_inputs no_parsers (new_store (Some Live) 7) ''A'' Map.empty None)) ''A'')
        = {default_row ''A'' 7}
   \<and> insert_values no_parsers ''A'' free_project None 7 = Inr project_row
   \<and> labor_cost_hourly project_row = 100 \<and> confidence_level project_row = 3
   \<and> business_unit project_row = ''Unknown''"
proof -
  have l: "connection (new_store (Some Live) 7) = Some Live"
    "current_timestamp (new_store (Some Live) 7) = 7"
    by (simp_all add: new_store_def)
  have n: "insert_values no_parsers ''A'' free_project None 7 = Inr project_row"
    by (simp add: free_project_def project_row_def store_defs)
  have f: "free_project ''labor_cost_hourly'' = None" "free_project ''confidence_level'' = None"
    by (simp_all add: free_project_def)
  show ?thesis
    using l n f save_fills_defaults[OF l(1), of no_parsers "''A''"]
    unfolding l(2) by blast
qed

lemma py_float_number:
  assumes "number_or_absent inputs k" and "\<bar>n\<bar> \<le> 2 ^ 53"
  shows "\<exists>x. py_float P (dict_get_default inputs k (PInt n)) = Inr (Finite x)
           \<and> py_num (dict_get_default inputs k (PInt n)) = Some x"
  using assms
  by (auto simp: number_or_absent_def dict_get_default_def int_to_float_exact
           split: option.splits pyval.splits pyfloat.splits)

lemma default_small: "\<bar>0 :: int\<bar> \<le> 2 ^ 53" "\<bar>100 :: int\<bar> \<le> 2 ^ 53"
  by simp_all

lemma py_int_integer:
  assumes "integer_or_absent inputs k"
  shows "\<exists>i. py_int P (dict_get_default inputs k (PInt n)) = Inr i
           \<and> py_num (dict_get_default inputs k (PInt n)) = Some (real_of_int i)"
  using assms
  by (auto simp: integer_or_absent_def dict_get_default_def split: option.splits pyval.splits)

lemma insert_values_storable:
  assumes "storable inputs"
  shows "\<exists>new. insert_values P title inputs bu now = Inr new
    \<and> Some (labor_impact_hours new) = py_num (dict_get_default inputs ''labor_impact_hours'' (PInt 0))
    \<and> Some (labor_cost_hourly new) = py_num (dict_get_default inputs ''labor_cost_hourly'' (PInt 100))
    \<and> Some (cost_avoidance_annual new) = py_num (dict_get_default inputs ''cost_avoidance_annual'' (PInt 0))
    \<and> Some (revenue_impact_annual new) = py_num (dict_get_default inputs ''revenue_impact_annual'' (PInt 0))
    \<and> Some (real_of_int (row_risk_mitigation_score new))
          = py_num (dict_get_default inputs ''risk_mitigation_score'' (PInt 3))
    \<and> Some (real_of_int (row_customer_reach_score new))
          = py_num (dict_get_default inputs ''customer_reach_score'' (PInt 3))
    \<and> Some (row_time_to_value_hours new) = py_num (dict_get_default inputs ''time_to_value_hours'' (PInt 0))
    \<and> Some (implementation_cost_hourly new)
          = py_num (dict_get_default inputs ''implementation_cost_hourly'' (PInt 100))
    \<and> Some (real_of_int (confidence_level new))
          = py_num (dict_get_default inputs ''confidence_level'' (PInt 3))"
proof -
  have a: "number_or_absent inputs ''labor_impact_hours''" "number_or_absent inputs ''labor_cost_hourly''"
    "number_or_absent inputs ''cost_avoidance_annual''" "number_or_absent inputs ''revenue_impact_annual''"
    "number_or_absent inputs ''time_to_value_hours''" "number_or_absent inputs ''implementation_cost_hourly''"
    using assms by (simp_all add: storable_def amount_fields_def)
  have b: "integer_or_absent inputs ''risk_mitigation_score''"
    "integer_or_absent inputs ''customer_reach_score''" "integer_or_absent inputs ''confidence_level''"
    using assms by (simp_all add: storable_def score_fields_def)
  obtain hours where hours: "py_float P (dict_get_default inputs ''labor_impact_hours'' (PInt 0)) = Inr (Finite hours)"
      "py_num (dict_get_default inputs ''labor_impact_hours'' (PInt 0)) = Some hours"
    using py_float_number[OF a(1) default_small(1)] by blast
  obtain rate where rate: "py_float P (dict_get_default inputs ''labor_cost_hourly'' (PInt 100)) = Inr (Finite rate)"
      "py_num (dict_get_default inputs ''labor_cost_hourly'' (PInt 100)) = Some rate"
    using py_float_number[OF a(2) default_small(2)] by blast
  obtain avoid where avoid: "py_float P (dict_get_default inputs ''cost_avoidance_annual'' (PInt 0)) = Inr (Finite avoid)"
      "py_num (dict_get_default inputs ''cost_avoidance_annual'' (PInt 0)) = Some avoid"
    using py_float_number[OF a(3) default_small(1)] by blast
  obtain rev where rev: "py_float P (dict_get_default inputs ''revenue_impact_annual'' (PInt 0)) = Inr (Finite rev)"
      "py_num (dict_get_default inputs ''revenue_impact_annual'' (PInt 0)) = Some rev"
    using py_float_number[OF a(4) default_small(1)] by blast
  obtain ttv where ttv: "py_float P (dict_get_default inputs ''time_to_value_hours'' (PInt 0)) = Inr (Finite ttv)"
      "py_num (dict_get_default inputs ''time_to_value_hours'' (PInt 0)) = Some ttv"
    using py_float_number[OF a(5) default_small(1)] by blast
  obtain impl where impl: "py_float P (dict_get_default inputs ''implementation_cost_hourly'' (PInt 100)) = Inr (Finite impl)"
      "py_num (dict_get_default inputs ''implementation_cost_hourly'' (PInt 100)) = Some impl"
    using py_float_number[OF a(6) default_small(2)] by blast
  obtain risk where risk: "py_int P (dict_get_default inputs ''risk_mitigation_score'' (PInt 3)) = Inr risk"
      "py_num (dict_get_default inputs ''risk_mitigation_score'' (PInt 3)) = Some (real_of_int risk)"
    using py_int_integer[OF b(1)] by blast
  obtain reach where reach: "py_int P (dict_get_default inputs ''customer_reach_score'' (PInt 3)) = Inr reach"
      "py_num (dict_get_default inputs ''customer_reach_score'' (PInt 3)) = Some (real_of_int reach)"
    using py_int_integer[OF b(2)] by blast
  obtain conf where conf: "py_int P (dict_get_default inputs ''confidence_level'' (PInt 3)) = Inr conf"
      "py_num (dict_get_default inputs ''confidence_level'' (PInt 3)) = Some (real_of_int conf)"
    using py_int_integer[OF b(3)] by blast
  have "insert_values P title inputs bu now = Inr
     \<lparr> use_case_title = title, business_unit = unit_or_unknown bu,
       labor_impact_hours = hours, labor_cost_hourly = rate, cost_avoidance_annual = avoid,
       revenue_impact_annual = rev, row_risk_mitigation_score = risk,
       row_customer_reach_score = reach, row_time_to_value_hours = ttv,
       implementation_cost_hourly = impl, confidence_level = conf, updated_at = now \<rparr>"
    unfolding insert_values_def
    by (simp only: hours(1) rate(1) avoid(1) rev(1) ttv(1) impl(1) risk(1) reach(1) conf(1)
          bind_err_def sum.case column_real.simps)
  then show ?thesis
    using hours(2) rate(2) avoid(2) rev(2) ttv(2) impl(2) risk(2) reach(2) conf(2) by simp
qed

text \<open>
  C3. On a live connection, for every input record whose six amounts and rates are
  each absent, an integer of magnitude at most \<open>2 ^ 53\<close> or a finite float, and
  whose three scores are each absent or an integer, \<^verbatim>\<open>save_roi_inputs\<close> returns
  \<^verbatim>\<open>True\<close> and a following \<^verbatim>\<open>load_roi_inputs\<close> of the title returns a
  dictionary of exactly the nine numeric and score fields, each equal in value to
  what was written (the default where the field was absent). The title and the
  business unit are in the stored row, the business unit as given, or
  \<^verbatim>\<open>'Unknown'\<close> when it was \<^verbatim>\<open>None\<close> or empty, and are not part of what
  \<^verbatim>\<open>load_roi_inputs\<close> returns.
\<close>

theorem save_then_load:
  assumes "connection s = Some Live" and "storable inputs"
  shows "fst (save_roi_inputs P s title inputs bu)
    \<and> (\<exists>d. load_roi_inputs (snd (save_roi_inputs P s title inputs bu)) title = Some d
      \<and> dom d = set (amount_fields @ score_fields)
      \<and> loaded_number (Some d) ''labor_impact_hours''
          = py_num (dict_get_default inputs ''labor_impact_hours'' (PInt 0))
      \<and> loaded_number (Some d) ''labor_cost_hourly''
          = py_num (dict_get_default inputs ''labor_cost_hourly'' (PInt 100))
      \<and> loaded_number (Some d) ''cost_avoidance_annual''
          = py_num (dict_get_default inputs ''cost_avoidance_annual'' (PInt 0))
      \<and> loaded_number (Some d) ''revenue_impact_annual''
          = py_num (dict_get_default inputs ''revenue_impact_annual'' (PInt 0))
      \<and> loaded_number (Some d) ''risk_mitigation_score''
          = py_num (dict_get_default inputs ''risk_mitigation_score'' (PInt 3))
      \<and> loaded_number (Some d) ''customer_reach_score''
          = py_num (dict_get_default inputs ''customer_reach_score'' (PInt 3))
      \<and> loaded_number (Some d) ''time_to_value_hours''
          = py_num (dict_get_default inputs ''time_to_value_hours'' (PInt 0))
      \<and> loaded_number (Some d) ''implementation_cost_hourly''
          = py_num (dict_get_default inputs ''implementation_cost_hourly'' (PInt 100))
      \<and> loaded_number (Some d) ''confidence_level''
          = py_num (dict_get_default inputs ''confidence_level'' (PInt 3))
      \<and> d ''use_case_title'' = None \<and> d ''business_unit'' = None)
    \<and> (\<exists>r. set (rows_for (snd (save_roi_inputs P s title inputs bu)) title) = {r}
          \<and> use_case_title r = title \<and> business_unit r = unit_or_unknown bu
          \<and> (\<forall>b. bu = Some b \<and> b \<noteq> [] \<longrightarrow> business_unit r = b)
          \<and> (bu = None \<or> bu = Some [] \<longrightarrow> business_unit r = ''Unknown''))"
proof -
  obtain new where new: "insert_values P title inputs bu (current_timestamp s) = Inr new"
    and f: "Some (labor_impact_hours new) = py_num (dict_get_default inputs ''labor_impact_hours'' (PInt 0))"
    "Some (labor_cost_hourly new) = py_num (dict_get_default inputs ''labor_cost_hourly'' (PInt 100))"
    "Some (cost_avoidance_annual new) = py_num (dict_get_default inputs ''cost_avoidance_annual'' (PInt 0))"
    "Some (revenue_impact_annual new) = py_num (dict_get_default inputs ''revenue_impact_annual'' (PInt 0))"
    "Some (real_of_int (row_risk_mitigation_score new))
          = py_num (dict_get_default inputs ''risk_mitigation_score'' (PInt 3))"
    "Some (real_of_int (row_customer_reach_score new))
          = py_num (dict_get_default inputs ''customer_reach_score'' (PInt 3))"
    "Some (row_time_to_value_hours new) = py_num (dict_get_default inputs ''time_to_value_hours'' (PInt 0))"
    "Some (implementation_cost_hourly new)
          = py_num (dict_get_default inputs ''implementation_cost_hourly'' (PInt 100))"
    "Some (real_of_int (confidence_level new))
          = py_num (dict_get_default inputs ''confidence_level'' (PInt 3))"
    using insert_values_storable[OF assms(2), of P title bu "current_timestamp s"] by blast
  have key: "use_case_title new = title" "business_unit new = unit_or_unknown bu"
    using insert_values_key[OF new] by simp_all
  have sv: "save_roi_inputs P s title inputs bu
              = (True, s\<lparr>roi_inputs := upsert new (roi_inputs s)\<rparr>)"
    by (rule save_live[OF assms(1) new])
  have ld: "load_roi_inputs (snd (save_roi_inputs P s title inputs bu)) title = Some (row_dict new)"
    using assms(1) upsert_find[of new "roi_inputs s"] key(1)
    by (simp add: sv load_roi_inputs_def)
  have dom: "dom (row_dict new) = set (amount_fields @ score_fields)"
    by (auto simp: row_dict_def amount_fields_def score_fields_def)
  have vals: "loaded_number (Some (row_dict new)) ''labor_impact_hours'' = Some (labor_impact_hours new)"
    "loaded_number (Some (row_dict new)) ''labor_cost_hourly'' = Some (labor_cost_hourly new)"
    "loaded_number (Some (row_dict new)) ''cost_avoidance_annual'' = Some (cost_avoidance_annual new)"
    "loaded_number (Some (row_dict new)) ''revenue_impact_annual'' = Some (revenue_impact_annual new)"
    "loaded_number (Some (row_dict new)) ''risk_mitigation_score''
       = Some (real_of_int (row_risk_mitigation_score new))"
    "loaded_number (Some (row_dict new)) ''customer_reach_score''
       = Some (real_of_int (row_customer_reach_score new))"
    "loaded_number (Some (row_dict new)) ''time_to_value_hours'' = Some (row_time_to_value_hours new)"
    "loaded_number (Some (row_dict new)) ''implementation_cost_hourly''
       = Some (implementation_cost_hourly new)"
    "loaded_number (Some (row_dict new)) ''confidence_level'' = Some (real_of_int (confidence_level new))"
    "row_dict new ''use_case_title'' = None" "row_dict new ''business_unit'' = None"
    by (simp_all add: loaded_number_def loaded_field_def row_dict_def)
  have rows: "set (rows_for (snd (save_roi_inputs P s title inputs bu)) title) = {new}"
    using upsert_set[of new "roi_inputs s"] key(1) by (simp add: sv rows_for_def)
  have "fst (save_roi_inputs P s title inputs bu)" using sv by simp
  moreover have "\<exists>r. set (rows_for (snd (save_roi_inputs P s title inputs bu)) title) = {r}
          \<and> use_case_title r = title \<and> business_unit r = unit_or_unknown bu
          \<and> (\<forall>b. bu = Some b \<and> b \<noteq> [] \<longrightarrow> business_unit r = b)
          \<and> (bu = None \<or> bu = Some [] \<longrightarrow> business_unit r = ''Unknown'')"
  proof -
    have "\<forall>b. bu = Some b \<and> b \<noteq> [] \<longrightarrow> unit_or_unknown bu = b"
      "bu = None \<or> bu = Some [] \<longrightarrow> unit_or_unknown bu = ''Unknown''"
      by (auto simp: unit_or_unknown_def)
    then show ?thesis using rows key by auto
  qed
  ultimately show ?thesis
    using ld dom vals f by simp
qed

text \<open>The worked example saved under title A for the business unit Sales.\<close>

theorem save_then_load_witness:
  "connection (new_store (Some Live) 7) = Some Live
   \<and> storable roi_example
   \<and> map business_unit (rows_for (snd (save_roi_inputs no_parsers (new_store (Some Live) 7)
          ''A'' roi_example (Some ''Sales''))) ''A'') = [''Sales'']
   \<and> fst (save_roi_inputs no_parsers (new_store (Some Live) 7) ''A'' roi_example (Some ''Sales''))
   \<and> loaded_number (load_roi_inputs (snd (save_roi_inputs no_parsers (new_store (Some Live) 7)
          ''A'' roi_example (Some ''Sales''))) ''A'') ''labor_impact_hours'' = Some 10
   \<and> loaded_number (load_roi_inputs (snd (save_roi_inputs no_parsers (new_store (Some Live) 7)
          ''A'' roi_example (Some ''Sales''))) ''A'') ''risk_mitigation_score'' = Some 4
   \<and> loaded_number (load_roi_inputs (snd (save_roi_inputs no_parsers (new_store (Some Live) 7)
          ''A'' roi_example (Some ''Sales''))) ''A'') ''implementation_cost_hourly'' = Some 100"
proof -
  have l: "connection (new_store (Some Live) 7) = Some Live"
    by (simp add: new_store_def)
  have st: "storable roi_example"
    by (simp add: storable_def amount_fields_def score_fields_def number_or_absent_def
          integer_or_absent_def roi_example_def)
  have w: "py_num (dict_get_default roi_example ''labor_impact_hours'' (PInt 0)) = Some 10"
    "py_num (dict_get_default roi_example ''risk_mitigation_score'' (PInt 3)) = Some 4"
    "py_num (dict_get_default roi_example ''implementation_cost_hourly'' (PInt 100)) = Some 100"
    by (simp_all add: roi_example_def dict_get_default_def)
  have bu: "map business_unit (rows_for (snd (save_roi_inputs no_parsers (new_store (Some Live) 7)
          ''A'' roi_example (Some ''Sales''))) ''A'') = [''Sales'']"
    by (simp add: roi_example_def store_defs)
  show ?thesis
    using l st w bu save_then_load[OF l st, of no_parsers "''A''" "Some ''Sales''"]
    by auto
qed

lemma int_to_float_odd: "int_to_float odd_int = Inr (Finite (2 ^ 53))"
proof -
  have b: "bitlen (2 ^ 53 + 1) = 54"
    using bitlen_twopow_add_eq[of 1 53] by simp
  have s: "nat (bitlen (2 ^ 53 + 1) - 53) = 1"
    unfolding b by simp
  have a: "\<bar>2 ^ 53 + 1 :: int\<bar> = 2 ^ 53 + 1" by simp
  have big: "\<not> (2 ^ 53 + 1 :: int) \<le> 2 ^ 53" by simp
  show ?thesis
    unfolding int_to_float_def odd_int_def Let_def a s using big by simp
qed

lemma insert_values_odd:
  "insert_values no_parsers ''A'' odd_hours None 7 = Inr (default_row ''A'' 7\<lparr>labor_impact_hours := 2 ^ 53\<rparr>)"
  by (simp add: odd_hours_def insert_values_def dict_get_default_def bind_err_def
        int_to_float_odd int_to_float_exact unit_or_unknown_def default_row_def)

lemma insert_values_huge:
  "insert_values no_parsers ''A'' huge_hours None 7 = Inl OverflowError"
  by (simp add: huge_hours_def insert_values_def dict_get_default_def bind_err_def
        int_to_float_huge)

text \<open>
  The claim as stated asks for all eleven fields back, for every input record.
  After the save of the worked example the row holds the business unit Sales, and
  the loaded dictionary has neither \<^verbatim>\<open>business_unit\<close> nor
  \<^verbatim>\<open>use_case_title\<close>. The integer \<open>2 ^ 53 + 1\<close> under
  \<^verbatim>\<open>labor_impact_hours\<close> comes back as \<open>2 ^ 53\<close>, since \<^verbatim>\<open>float\<close> rounds
  it; and with \<open>2 ^ 1024\<close> there \<^verbatim>\<open>float\<close> raises and the save returns
  \<^verbatim>\<open>False\<close>.
\<close>

theorem save_then_load_counterexample:
  "fst (save_roi_inputs no_parsers (new_store (Some Live) 7) ''A'' roi_example (Some ''Sales''))
   \<and> map business_unit (rows_for saved_once ''A'') = [''Sales'']
   \<and> load_roi_inputs saved_once ''A'' \<noteq> None
   \<and> loaded_field (load_roi_inputs saved_once ''A'') ''business_unit'' = None
   \<and> loaded_field (load_roi_inputs saved_once ''A'') ''use_case_title'' = None
   \<and> fst (save_roi_inputs no_parsers (new_store (Some Live) 7) ''A'' odd_hours None)
   \<and> loaded_number (load_roi_inputs (snd (save_roi_inputs no_parsers (new_store (Some Live) 7)
          ''A'' odd_hours None)) ''A'') ''labor_impact_hours'' = Some (2 ^ 53)
   \<and> py_num (dict_get odd_hours ''labor_impact_hours'') = Some (2 ^ 53 + 1)
   \<and> \<not> fst (save_roi_inputs no_parsers (new_store (Some Live) 7) ''A'' huge_hours None)"
proof -
  have first: "fst (save_roi_inputs no_parsers (new_store (Some Live) 7) ''A'' roi_example (Some ''Sales''))
   \<and> map business_unit (rows_for saved_once ''A'') = [''Sales'']
   \<and> load_roi_inputs saved_once ''A'' \<noteq> None
   \<and> loaded_field (load_roi_inputs saved_once ''A'') ''business_unit'' = None
   \<and> loaded_field (load_roi_inputs saved_once ''A'') ''use_case_title'' = None"
    by (simp add: saved_once_def roi_example_def store_defs)
  have odd: "save_roi_inputs no_parsers (new_store (Some Live) 7) ''A'' odd_hours None
      = (True, \<lparr> connection = Some Live,
                 roi_inputs = [default_row ''A'' 7\<lparr>labor_impact_hours := 2 ^ 53\<rparr>],
                 current_timestamp = 7 \<rparr>)"
    by (simp add: save_roi_inputs_def new_store_def insert_values_odd upsert_def)
  have loaded: "loaded_number (load_roi_inputs (snd (save_roi_inputs no_parsers
          (new_store (Some Live) 7) ''A'' odd_hours None)) ''A'') ''labor_impact_hours''
        = Some (2 ^ 53)"
    unfolding odd
    by (simp add: load_roi_inputs_def loaded_number_def loaded_field_def row_dict_def
          default_row_def)
  have written: "py_num (dict_get odd_hours ''labor_impact_hours'') = Some (2 ^ 53 + 1)"
    by (simp add: odd_hours_def odd_int_def dict_get_def)
  have huge: "\<not> fst (save_roi_inputs no_parsers (new_store (Some Live) 7) ''A'' huge_hours None)"
    by (simp add: save_roi_inputs_def new_store_def insert_values_huge)
  show ?thesis using first odd loaded written huge by simp
qed

section \<open>Portfolio aggregation: records without data\<close>

lemma no_key_data_has_data:
  assumes "no_key_data inputs"
  shows "\<not> has_data inputs"
proof -
  have "in_none_zero_empty (dict_get inputs k)" if "zero_or_null inputs k" for k
    using that by (auto simp: zero_or_null_def dict_get_def split: option.splits pyval.splits)
  then show ?thesis using assms
    by (simp add: no_key_data_def has_data_def key_fields_def)
qed

lemma summarize_skip:
  "\<not> has_data inputs \<Longrightarrow>
     summarize (before @ (title, inputs) # after) acc = summarize (before @ after) acc"
proof (induction before arbitrary: acc)
  case Nil
  then show ?case by simp
next
  case (Cons entry before)
  obtain t i where entry: "entry = (t, i)" by (cases entry)
  show ?case
  proof (cases "has_data i")
    case False
    then show ?thesis using Cons entry by simp
  next
    case True
    show ?thesis
    proof (cases "calculate_roi_with_inputs i")
      case (Inl e)
      then show ?thesis using True entry by (simp add: bind_err_def)
    next
      case (Inr results)
      show ?thesis
      proof (cases "add_case t results acc")
        case (Inl e)
        then show ?thesis using True entry Inr by (simp add: bind_err_def)
      next
        case (Inr acc')
        then show ?thesis
          using True entry \<open>calculate_roi_with_inputs i = Inr results\<close> Cons
          by (simp add: bind_err_def)
      qed
    qed
  qed
qed

text \<open>
  C7. During portfolio aggregation a record whose \<^verbatim>\<open>labor_impact_hours\<close>,
  \<^verbatim>\<open>cost_avoidance_annual\<close> and \<^verbatim>\<open>revenue_impact_annual\<close> are each absent,
  null or zero is skipped: the summary rows and the two totals are the ones of the
  same portfolio without that record, whatever its \<^verbatim>\<open>time_to_value_hours\<close>.
\<close>

theorem no_data_record_excluded:
  assumes "no_key_data inputs"
  shows "summarize (before @ (title, inputs) # after) acc = summarize (before @ after) acc"
  using summarize_skip[OF no_key_data_has_data[OF assms]] .

text \<open>
  Three cases, the second with forty hours of implementation and no benefit data:
  the summary has the rows of the first and the third, and the totals are theirs.
\<close>

theorem no_data_record_excluded_witness:
  "no_key_data idle_case
   \<and> dict_get idle_case ''time_to_value_hours'' = PInt 40
   \<and> summarize ([(''A'', roi_example)] @ (''B'', idle_case) # [(''C'', free_project)]) empty_portfolio
       = summarize ([(''A'', roi_example)] @ [(''C'', free_project)]) empty_portfolio
   \<and> (case summarize [(''A'', roi_example), (''B'', idle_case), (''C'', free_project)] empty_portfolio of
         Inl e \<Rightarrow> False
       | Inr p \<Rightarrow> map use_case (roi_summary_data p) = [''A'', ''C'']
                 \<and> py_num (total_annual_benefits p) = Some 21600
                 \<and> py_num (total_implementation_costs p) = Some 1000)"
proof -
  have h: "no_key_data idle_case"
    by (simp add: no_key_data_def key_fields_def zero_or_null_def idle_case_def)
  have t: "dict_get idle_case ''time_to_value_hours'' = PInt 40"
    by (simp add: idle_case_def dict_get_def)
  have e: "summarize ([(''A'', roi_example)] @ [(''C'', free_project)]) empty_portfolio
     = Inr \<lparr> total_annual_benefits = PFloat (Finite 21600), total_implementation_costs = PFloat (Finite 1000),
          roi_summary_data =
            [\<lparr> use_case = ''A'', monthly_benefit_shown = PFloat (Finite 800),
               annual_benefit_shown = PFloat (Finite 9600), implementation_cost_shown = Dollars (PInt 1000),
               net_annual_benefit_shown = PFloat (Finite 8600), roi_shown = Percent (PFloat (Finite 860)),
               strategic_value_shown = PFloat (Finite 4) \<rparr>,
             \<lparr> use_case = ''C'', monthly_benefit_shown = PFloat (Finite 1000),
               annual_benefit_shown = PFloat (Finite 12000), implementation_cost_shown = Not_Set,
               net_annual_benefit_shown = PFloat (Finite 12000), roi_shown = N_A,
               strategic_value_shown = PFloat (Finite 0) \<rparr>] \<rparr>"
    by (simp add: roi_example_def free_project_def empty_portfolio_def has_data_def
          key_fields_def add_case_def calc_defs)
  show ?thesis
    using h t e no_data_record_excluded[OF h, of "[(''A'', roi_example)]" "''B''"
        "[(''C'', free_project)]" empty_portfolio]
    by simp
qed

end
